theory Spec2Isabelle
  imports Main "HOL-Library.Word"
begin

unbundle bit_operations_syntax

section \<open>Data model\<close>

text \<open>
  The C types of \<^verbatim>\<open>Buffers.cc\<close>. \<^verbatim>\<open>uint32_t\<close>, \<^verbatim>\<open>VkFlags\<close> and the flag
  types built on it are 32-bit words; \<^verbatim>\<open>size_t\<close> and \<^verbatim>\<open>VkDeviceSize\<close> are 64-bit words
  (the LP64 and LLP64 targets Vulkan runs on); \<^verbatim>\<open>VkResult\<close> is a C enumeration, an
  \<open>int\<close> whose value 0 is \<^verbatim>\<open>VK_SUCCESS\<close>. Handles and the objects pointers point to are
  natural numbers, 0 being \<^verbatim>\<open>nullptr\<close> and \<^verbatim>\<open>VK_NULL_HANDLE\<close>.
\<close>

type_synonym uint32_t = "32 word"
type_synonym size_t = "64 word"
type_synonym VkDeviceSize = "64 word"
type_synonym VkFlags = "32 word"
type_synonym byte = "8 word"
type_synonym VkResult = int
type_synonym handle = nat

definition VK_SUCCESS :: VkResult where
  "VK_SUCCESS = 0"

definition nullptr :: handle where
  "nullptr = 0"

definition VK_NULL_HANDLE :: handle where
  "VK_NULL_HANDLE = 0"

record VkMemoryType =
  propertyFlags :: VkFlags
  heapIndex :: uint32_t

text \<open>
  \<^verbatim>\<open>VkPhysicalDeviceMemoryProperties\<close>: a count and the array \<^verbatim>\<open>memoryTypes\<close> (the heaps,
  which \<^verbatim>\<open>getMemoryType\<close> never reads, are left out). The device fills the first
  \<open>memoryTypeCount\<close> entries of the array, so a value the driver hands out has
  \<open>memoryTypeCount\<close> at most the array's length.
\<close>

record VkPhysicalDeviceMemoryProperties =
  memoryTypeCount :: uint32_t
  memoryTypes :: "VkMemoryType list"

definition wf_memory_properties :: "VkPhysicalDeviceMemoryProperties \<Rightarrow> bool" where
  "wf_memory_properties p \<longleftrightarrow> unat (memoryTypeCount p) \<le> length (memoryTypes p)"

text \<open>
  What the source throws. \<^verbatim>\<open>getMemoryType\<close> throws a \<^verbatim>\<open>std::runtime_error\<close>, the
  spec's \<open>MemoryTypeUnavailable\<close>; every other failure comes out of the macro
  \<^verbatim>\<open>CHECK_VK_SUCCESS\<close> with the message given at the call site and the result code that
  was not \<^verbatim>\<open>VK_SUCCESS\<close>. The last one is no exception: \<open>NullDereference\<close> is the
  end of a run that dereferences a null pointer, which C++ leaves undefined and the
  platforms at hand answer by killing the process on the spot.
\<close>

datatype message =
  Cannot_create_buffer
  | FAILED_CANNOT_CREATE_CMD_BUFFER
  | FAILED_CANNOT_BEGIN_CMD_BUFFER
  | FAILED_CANNOT_END_CMD_BUFFER
  | FAILED_CANNOT_SUBMIT_QUEUE
  | FAILED_WAIT_IDLE

datatype error =
  MemoryTypeUnavailable
  | CheckFailed message VkResult
  | NullDereference

section \<open>Memory type selector\<close>

text \<open>
  \<^verbatim>\<open>Buffers::getMemoryType\<close>, lines 10 to 28. The query
  \<^verbatim>\<open>vkGetPhysicalDeviceMemoryProperties\<close> belongs to the driver: its answer
  \<open>physMemProperty\<close> is the first argument. The loop carries \<open>mask\<close>
  (here \<open>mask'\<close>, as \<open>filter\<close> is \<open>filter'\<close>) and \<open>i\<close>, both
  \<^verbatim>\<open>uint32_t\<close>; \<open>mask << 1\<close> drops the bit shifted out of the word.
\<close>

function getMemoryType_loop ::
  "VkPhysicalDeviceMemoryProperties \<Rightarrow> VkFlags \<Rightarrow> uint32_t \<Rightarrow> uint32_t \<Rightarrow> uint32_t
    \<Rightarrow> error + uint32_t" where
  "getMemoryType_loop physMemProperty properties filter' mask' i =
     (if i < memoryTypeCount physMemProperty then
        (if filter' AND mask' \<noteq> 0 \<and>
            propertyFlags (memoryTypes physMemProperty ! unat i) AND properties = properties
         then Inr i
         else getMemoryType_loop physMemProperty properties filter' (push_bit 1 mask') (i + 1))
      else Inl MemoryTypeUnavailable)"
  by pat_completeness auto
termination
proof (relation "measure (\<lambda>(p, properties, filter', mask', i). unat (memoryTypeCount p) - unat i)")
  show "wf (measure (\<lambda>(p, properties, filter', mask', i). unat (memoryTypeCount p) - unat i))"
    by simp
next
  fix physMemProperty :: VkPhysicalDeviceMemoryProperties
  fix properties filter' mask' i :: uint32_t
  assume lt: "i < memoryTypeCount physMemProperty"
  then have "unat (i + 1) = Suc (unat i)"
    by unat_arith
  moreover from lt have "unat i < unat (memoryTypeCount physMemProperty)"
    by (simp add: word_less_nat_alt)
  ultimately show "((physMemProperty, properties, filter', push_bit 1 mask', i + 1),
      (physMemProperty, properties, filter', mask', i))
    \<in> measure (\<lambda>(p, properties, filter', mask', i). unat (memoryTypeCount p) - unat i)"
    by simp
qed

declare getMemoryType_loop.simps [simp del]

definition getMemoryType ::
  "VkPhysicalDeviceMemoryProperties \<Rightarrow> VkFlags \<Rightarrow> uint32_t \<Rightarrow> error + uint32_t" where
  "getMemoryType physMemProperty properties filter' =
     getMemoryType_loop physMemProperty properties filter' 1 0"

text \<open>
  The acceptance test of the specification, on a natural-number index: bit \<open>j\<close> of the
  filter is set and the flags of type \<open>j\<close> contain every required flag.
\<close>

definition acceptable ::
  "VkPhysicalDeviceMemoryProperties \<Rightarrow> VkFlags \<Rightarrow> uint32_t \<Rightarrow> nat \<Rightarrow> bool" where
  "acceptable p properties filter' j \<longleftrightarrow>
     bit filter' j \<and> propertyFlags (memoryTypes p ! j) AND properties = properties"

section \<open>The driver and the allocator\<close>

text \<open>
  \<^verbatim>\<open>Buffers.cc\<close> reaches the device only through calls of Vulkan and of the Vulkan
  Memory Allocator. The world they act on is a record: the result codes the driver will
  give to the coming fallible calls, in order (\<^verbatim>\<open>VK_SUCCESS\<close> once the list is used up);
  the log of every call made, oldest first; the bytes of every allocation, by offset; the
  allocation each buffer handle is bound to; the command buffers that are allocated, with
  the commands recorded in each; the commands submitted to each queue and not yet
  completed; and the last handle handed out.
\<close>

datatype VkStructureType =
  VK_STRUCTURE_TYPE_BUFFER_CREATE_INFO
  | VK_STRUCTURE_TYPE_COMMAND_BUFFER_ALLOCATE_INFO
  | VK_STRUCTURE_TYPE_COMMAND_BUFFER_BEGIN_INFO
  | VK_STRUCTURE_TYPE_SUBMIT_INFO

datatype VkSharingMode = VK_SHARING_MODE_EXCLUSIVE | VK_SHARING_MODE_CONCURRENT

datatype VkCommandBufferLevel =
  VK_COMMAND_BUFFER_LEVEL_PRIMARY | VK_COMMAND_BUFFER_LEVEL_SECONDARY

type_synonym VmaMemoryUsage = nat

definition VK_COMMAND_BUFFER_USAGE_ONE_TIME_SUBMIT_BIT :: VkFlags where
  "VK_COMMAND_BUFFER_USAGE_ONE_TIME_SUBMIT_BIT = 1"

text \<open>
  The structures the source fills in, with the fields it sets. A pointer to an array
  (\<open>pQueueFamilyIndices\<close>, \<open>pCommandBuffers\<close>) is the list of the array's elements, and
  \<^verbatim>\<open>nullptr\<close> the empty list.
\<close>

record VkBufferCreateInfo =
  bci_sType :: VkStructureType
  bci_size :: VkDeviceSize
  bci_usage :: VkFlags
  sharingMode :: VkSharingMode
  queueFamilyIndexCount :: uint32_t
  pQueueFamilyIndices :: "uint32_t list"

record VmaAllocationCreateInfo =
  aci_usage :: VmaMemoryUsage
  requiredFlags :: VkFlags

record VkCommandBufferAllocateInfo =
  cai_sType :: VkStructureType
  commandPool :: handle
  level :: VkCommandBufferLevel
  cai_commandBufferCount :: uint32_t

record VkCommandBufferBeginInfo =
  cbi_sType :: VkStructureType
  cbi_flags :: VkFlags

record VkSubmitInfo =
  si_sType :: VkStructureType
  si_commandBufferCount :: uint32_t
  pCommandBuffers :: "handle list"

record VkBufferCopy =
  srcOffset :: VkDeviceSize
  dstOffset :: VkDeviceSize
  region_size :: VkDeviceSize

datatype call =
  VmaCreateBuffer handle VkBufferCreateInfo VmaAllocationCreateInfo
  | VmaDestroyBuffer handle handle handle
  | VmaMapMemory handle handle
  | Memcpy handle "byte list" size_t
  | VmaUnmapMemory handle handle
  | VkAllocateCommandBuffers handle VkCommandBufferAllocateInfo
  | VkBeginCommandBuffer handle VkCommandBufferBeginInfo
  | VkCmdCopyBuffer handle handle handle "VkBufferCopy list"
  | VkEndCommandBuffer handle
  | VkQueueSubmit handle "VkSubmitInfo list" handle
  | VkQueueWaitIdle handle
  | VkFreeCommandBuffers handle handle "handle list"

datatype command = CopyBuffer handle handle "VkBufferCopy list"

record world =
  answers :: "VkResult list"
  calls :: "call list"
  store :: "handle \<Rightarrow> nat \<Rightarrow> byte"
  binding :: "handle \<Rightarrow> handle option"
  cmdBuffers :: "handle \<Rightarrow> command list option"
  pending :: "handle \<Rightarrow> command list"
  last_handle :: handle

definition log_call :: "call \<Rightarrow> world \<Rightarrow> world" where
  "log_call c w = w\<lparr>calls := calls w @ [c]\<rparr>"

definition next_answer :: "world \<Rightarrow> VkResult" where
  "next_answer w = (case answers w of [] \<Rightarrow> VK_SUCCESS | r # rs \<Rightarrow> r)"

definition answer :: "world \<Rightarrow> VkResult \<times> world" where
  "answer w = (next_answer w, w\<lparr>answers := tl (answers w)\<rparr>)"

text \<open>
  \<^verbatim>\<open>vmaCreateBuffer\<close> creates a buffer and an allocation, binds them and writes both
  handles through its out-parameters; on failure it writes null handles.
\<close>

definition vmaCreateBuffer ::
  "handle \<Rightarrow> VkBufferCreateInfo \<Rightarrow> VmaAllocationCreateInfo \<Rightarrow> world
    \<Rightarrow> VkResult \<times> handle \<times> handle \<times> world" where
  "vmaCreateBuffer al createInfo allocInfo w =
     (let (r, w1) = answer (log_call (VmaCreateBuffer al createInfo allocInfo) w) in
      if r = VK_SUCCESS then
        (let b = Suc (last_handle w1); a = Suc b in
         (r, b, a, w1\<lparr>binding := (binding w1)(b \<mapsto> a), last_handle := a\<rparr>))
      else (r, VK_NULL_HANDLE, VK_NULL_HANDLE, w1))"

definition vmaDestroyBuffer :: "handle \<Rightarrow> handle \<Rightarrow> handle \<Rightarrow> world \<Rightarrow> world" where
  "vmaDestroyBuffer al buf a w =
     (let w1 = log_call (VmaDestroyBuffer al buf a) w in
      w1\<lparr>binding := (binding w1)(buf := None)\<rparr>)"

text \<open>
  \<^verbatim>\<open>vmaMapMemory\<close> answers with a result code and, on success, a pointer to the first
  byte of the allocation: the pointer is the allocation's handle, read at offset 0.
\<close>

definition vmaMapMemory :: "handle \<Rightarrow> handle \<Rightarrow> world \<Rightarrow> VkResult \<times> handle \<times> world" where
  "vmaMapMemory al a w =
     (let (r, w1) = answer (log_call (VmaMapMemory al a) w) in
      if r = VK_SUCCESS then (r, a, w1) else (r, nullptr, w1))"

definition vmaUnmapMemory :: "handle \<Rightarrow> handle \<Rightarrow> world \<Rightarrow> world" where
  "vmaUnmapMemory al a w = log_call (VmaUnmapMemory al a) w"

text \<open>
  \<^verbatim>\<open>memcpy(dst, src, n)\<close> writes the first \<open>n\<close> bytes of \<open>src\<close> at the first \<open>n\<close>
  offsets of the mapped allocation and leaves every other byte alone. C leaves the
  call undefined when \<open>src\<close> has fewer than \<open>n\<close> bytes.
\<close>

definition memcpy :: "handle \<Rightarrow> byte list \<Rightarrow> size_t \<Rightarrow> world \<Rightarrow> world" where
  "memcpy dst src n w =
     (let w1 = log_call (Memcpy dst src n) w in
      w1\<lparr>store := (store w1)(dst := (\<lambda>i. if i < unat n then src ! i else store w1 dst i))\<rparr>)"

definition vkAllocateCommandBuffers ::
  "handle \<Rightarrow> VkCommandBufferAllocateInfo \<Rightarrow> handle \<Rightarrow> world \<Rightarrow> VkResult \<times> handle \<times> world" where
  "vkAllocateCommandBuffers dev allocateInfo cmdBuffer w =
     (let (r, w1) = answer (log_call (VkAllocateCommandBuffers dev allocateInfo) w) in
      if r = VK_SUCCESS then
        (let cb = Suc (last_handle w1) in
         (r, cb, w1\<lparr>cmdBuffers := (cmdBuffers w1)(cb \<mapsto> []), last_handle := cb\<rparr>))
      else (r, cmdBuffer, w1))"

definition vkBeginCommandBuffer ::
  "handle \<Rightarrow> VkCommandBufferBeginInfo \<Rightarrow> world \<Rightarrow> VkResult \<times> world" where
  "vkBeginCommandBuffer cb beginInfo w =
     (let (r, w1) = answer (log_call (VkBeginCommandBuffer cb beginInfo) w) in
      if r = VK_SUCCESS \<and> cmdBuffers w1 cb \<noteq> None
      then (r, w1\<lparr>cmdBuffers := (cmdBuffers w1)(cb \<mapsto> [])\<rparr>)
      else (r, w1))"

definition vkCmdCopyBuffer ::
  "handle \<Rightarrow> handle \<Rightarrow> handle \<Rightarrow> VkBufferCopy list \<Rightarrow> world \<Rightarrow> world" where
  "vkCmdCopyBuffer cb src dst regions w =
     (let w1 = log_call (VkCmdCopyBuffer cb src dst regions) w in
      case cmdBuffers w1 cb of
        None \<Rightarrow> w1
      | Some cs \<Rightarrow> w1\<lparr>cmdBuffers := (cmdBuffers w1)(cb \<mapsto> cs @ [CopyBuffer src dst regions])\<rparr>)"

definition vkEndCommandBuffer :: "handle \<Rightarrow> world \<Rightarrow> VkResult \<times> world" where
  "vkEndCommandBuffer cb w = answer (log_call (VkEndCommandBuffer cb) w)"

definition recorded :: "world \<Rightarrow> handle \<Rightarrow> command list" where
  "recorded w cb = (case cmdBuffers w cb of None \<Rightarrow> [] | Some cs \<Rightarrow> cs)"

definition vkQueueSubmit ::
  "handle \<Rightarrow> VkSubmitInfo list \<Rightarrow> handle \<Rightarrow> world \<Rightarrow> VkResult \<times> world" where
  "vkQueueSubmit queue submits fence w =
     (let (r, w1) = answer (log_call (VkQueueSubmit queue submits fence) w) in
      if r = VK_SUCCESS then
        (r, w1\<lparr>pending := (pending w1)(queue := pending w1 queue @
               concat (map (recorded w1) (concat (map pCommandBuffers submits))))\<rparr>)
      else (r, w1))"

text \<open>
  The device runs a copy command region by region: the bytes of the source buffer's
  allocation from \<open>srcOffset\<close> on go to the destination buffer's allocation from
  \<open>dstOffset\<close> on. A command that names a handle bound to no allocation does nothing.
\<close>

definition copy_region ::
  "handle \<Rightarrow> handle \<Rightarrow> VkBufferCopy \<Rightarrow> (handle \<Rightarrow> nat \<Rightarrow> byte) \<Rightarrow> (handle \<Rightarrow> nat \<Rightarrow> byte)" where
  "copy_region sa da r m =
     m(da := (\<lambda>i. if unat (dstOffset r) \<le> i \<and> i < unat (dstOffset r) + unat (region_size r)
                   then m sa (unat (srcOffset r) + (i - unat (dstOffset r)))
                   else m da i))"

fun execute :: "(handle \<Rightarrow> handle option) \<Rightarrow> command \<Rightarrow> (handle \<Rightarrow> nat \<Rightarrow> byte) \<Rightarrow> (handle \<Rightarrow> nat \<Rightarrow> byte)" where
  "execute bnd (CopyBuffer src dst regions) m =
     (case (bnd src, bnd dst) of
        (Some sa, Some da) \<Rightarrow> fold (copy_region sa da) regions m
      | _ \<Rightarrow> m)"

text \<open>
  \<^verbatim>\<open>vkQueueWaitIdle\<close> returns \<^verbatim>\<open>VK_SUCCESS\<close> once everything submitted to the queue has
  completed: the pending commands have run, in submission order.
\<close>

definition vkQueueWaitIdle :: "handle \<Rightarrow> world \<Rightarrow> VkResult \<times> world" where
  "vkQueueWaitIdle queue w =
     (let (r, w1) = answer (log_call (VkQueueWaitIdle queue) w) in
      if r = VK_SUCCESS then
        (r, w1\<lparr>store := fold (execute (binding w1)) (pending w1 queue) (store w1),
               pending := (pending w1)(queue := [])\<rparr>)
      else (r, w1))"

definition vkFreeCommandBuffers :: "handle \<Rightarrow> handle \<Rightarrow> handle list \<Rightarrow> world \<Rightarrow> world" where
  "vkFreeCommandBuffers dev pool cbs w =
     (let w1 = log_call (VkFreeCommandBuffers dev pool cbs) w in
      w1\<lparr>cmdBuffers := (\<lambda>cb. if cb \<in> set cbs then None else cmdBuffers w1 cb)\<rparr>)"

text \<open>
  Modelled from the spec: the macro \<^verbatim>\<open>CHECK_VK_SUCCESS\<close>, whose definition is in a
  header that is not among the sources. The specification calls every failure it
  guards fatal and surfaced at once: a result other than \<^verbatim>\<open>VK_SUCCESS\<close> ends the
  function with an error that carries the call site's message, and \<^verbatim>\<open>VK_SUCCESS\<close>
  lets it go on.
\<close>

definition CHECK_VK_SUCCESS :: "VkResult \<Rightarrow> message \<Rightarrow> error option" where
  "CHECK_VK_SUCCESS r msg = (if r = VK_SUCCESS then None else Some (CheckFailed msg r))"

section \<open>Buffer\<close>

text \<open>
  The members of \<^verbatim>\<open>Buffers::Buffer\<close>, as \<^verbatim>\<open>Buffers.cc\<close> uses them: two raw pointers it
  does not own, the size the constructor receives as a \<^verbatim>\<open>size_t\<close>, and the two handles
  \<^verbatim>\<open>vmaCreateBuffer\<close> writes. A pointer is identified with the handle it points to, so
  \<^verbatim>\<open>*allocator\<close> is \<open>allocator\<close>. The member \<^verbatim>\<open>size\<close> is \<open>size'\<close> here.

  The moves set \<open>logicalDev\<close> to \<^verbatim>\<open>nullptr\<close>, so a buffer with a null device pointer is
  a state the code itself produces; \<open>deref\<close> is the dereference, which has no value at
  \<^verbatim>\<open>nullptr\<close>. The allocator pointer is copied by the moves and never set to null.
\<close>

record Buffer =
  logicalDev :: handle
  allocator :: handle
  size' :: size_t
  vertexBuffer :: handle
  allocation :: handle

definition deref :: "handle \<Rightarrow> handle option" where
  "deref p = (if p = nullptr then None else Some p)"

definition isInitialized :: "Buffer \<Rightarrow> bool" where
  "isInitialized this \<longleftrightarrow> logicalDev this \<noteq> nullptr"

definition operator_bool :: "Buffer \<Rightarrow> bool" where
  "operator_bool this = isInitialized this"


definition getLogicalDev :: "Buffer \<Rightarrow> handle" where
  "getLogicalDev this = logicalDev this"

subsection \<open>Construction\<close>

definition createVertexBuffer ::
  "Buffer \<Rightarrow> VkFlags \<Rightarrow> VmaMemoryUsage \<Rightarrow> VkFlags \<Rightarrow> world \<Rightarrow> VkResult \<times> Buffer \<times> world" where
  "createVertexBuffer this bufferUsageFlags memoryUsage memoryFlags w =
     (let createInfo = \<lparr>bci_sType = VK_STRUCTURE_TYPE_BUFFER_CREATE_INFO,
                         bci_size = size' this,
                         bci_usage = bufferUsageFlags,
                         sharingMode = VK_SHARING_MODE_EXCLUSIVE,
                         queueFamilyIndexCount = 0,
                         pQueueFamilyIndices = []\<rparr>;
          allocInfo = \<lparr>aci_usage = memoryUsage, requiredFlags = memoryFlags\<rparr>;
          (r, b, a, w1) = vmaCreateBuffer (allocator this) createInfo allocInfo w
      in (r, this\<lparr>vertexBuffer := b, allocation := a\<rparr>, w1))"

text \<open>
  A \<^verbatim>\<open>std::set<uint32_t>\<close> is a set of words; \<^verbatim>\<open>queueVec.assign(begin, end)\<close> walks it
  in ascending order, and \<^verbatim>\<open>static_cast<uint32_t>(queues.size())\<close> keeps the low 32 bits
  of the number of elements.
\<close>

definition createVertexBufferConcurrent ::
  "Buffer \<Rightarrow> VkFlags \<Rightarrow> VmaMemoryUsage \<Rightarrow> VkFlags \<Rightarrow> uint32_t set \<Rightarrow> world
    \<Rightarrow> VkResult \<times> Buffer \<times> world" where
  "createVertexBufferConcurrent this bufferUsageFlags memoryUsage memoryFlags queues w =
     (let queueVec = sorted_list_of_set queues;
          createInfo = \<lparr>bci_sType = VK_STRUCTURE_TYPE_BUFFER_CREATE_INFO,
                         bci_size = size' this,
                         bci_usage = bufferUsageFlags,
                         sharingMode = VK_SHARING_MODE_CONCURRENT,
                         queueFamilyIndexCount = of_nat (card queues),
                         pQueueFamilyIndices = queueVec\<rparr>;
          allocInfo = \<lparr>aci_usage = memoryUsage, requiredFlags = memoryFlags\<rparr>;
          (r, b, a, w1) = vmaCreateBuffer (allocator this) createInfo allocInfo w
      in (r, this\<lparr>vertexBuffer := b, allocation := a\<rparr>, w1))"

text \<open>
  The constructor, lines 30 to 50. The member initialisers set the two pointers and the
  size; the two handles are written by the creation call. A creation that fails leaves
  the constructor through \<^verbatim>\<open>CHECK_VK_SUCCESS\<close>, and no object exists. The parameter
  \<open>physicalDev\<close> is not used by the body.
\<close>

definition Buffer_ctor ::
  "handle \<Rightarrow> handle \<Rightarrow> handle \<Rightarrow> size_t \<Rightarrow> VkFlags \<Rightarrow> VmaMemoryUsage \<Rightarrow> VkFlags
    \<Rightarrow> uint32_t set option \<Rightarrow> world \<Rightarrow> (error + Buffer) \<times> world" where
  "Buffer_ctor dev al physicalDev bufferSize bufferUsageFlags memoryUsage memoryFlags usedQueues w =
     (let this = \<lparr>logicalDev = dev, allocator = al, size' = bufferSize,
                   vertexBuffer = VK_NULL_HANDLE, allocation = VK_NULL_HANDLE\<rparr>;
          (r, this1, w1) =
            (if usedQueues \<noteq> None \<and> 1 < card (the usedQueues)
             then createVertexBufferConcurrent this bufferUsageFlags memoryUsage memoryFlags
                    (the usedQueues) w
             else createVertexBuffer this bufferUsageFlags memoryUsage memoryFlags w)
      in case CHECK_VK_SUCCESS r Cannot_create_buffer of
           Some e \<Rightarrow> (Inl e, w1)
         | None \<Rightarrow> (Inr this1, w1))"

subsection \<open>Moves and destruction\<close>

text \<open>
  A move reads one object and writes two, and nothing keeps the two from being the same
  object (\<^verbatim>\<open>b = std::move(b)\<close>), so the objects live in a store, by address, and the
  assignments run in the source's order. \<^verbatim>\<open>std::move\<close> of a pointer, an integer or a
  handle copies it. Neither move calls the allocator or the device: the world goes
  through unchanged.
\<close>

type_synonym objects = "nat \<Rightarrow> Buffer"

definition Buffer_move_ctor :: "nat \<Rightarrow> nat \<Rightarrow> objects \<Rightarrow> world \<Rightarrow> objects \<times> world" where
  "Buffer_move_ctor this buf h w =
     (let h1 = h(this := \<lparr>logicalDev = logicalDev (h buf), allocator = allocator (h buf),
                          size' = size' (h buf),
                          vertexBuffer = vertexBuffer (h buf), allocation = allocation (h buf)\<rparr>);
          h2 = h1(buf := (h1 buf)\<lparr>logicalDev := nullptr\<rparr>)
      in (h2, w))"

definition Buffer_move_assign :: "nat \<Rightarrow> nat \<Rightarrow> objects \<Rightarrow> world \<Rightarrow> objects \<times> world" where
  "Buffer_move_assign this buf h w =
     (let h1 = h(this := (h this)\<lparr>logicalDev := logicalDev (h buf)\<rparr>);
          h2 = h1(this := (h1 this)\<lparr>allocator := allocator (h1 buf)\<rparr>);
          h3 = h2(this := (h2 this)\<lparr>size' := size' (h2 buf)\<rparr>);
          h4 = h3(this := (h3 this)\<lparr>vertexBuffer := vertexBuffer (h3 buf)\<rparr>);
          h5 = h4(this := (h4 this)\<lparr>allocation := allocation (h4 buf)\<rparr>);
          h6 = h5(buf := (h5 buf)\<lparr>logicalDev := nullptr\<rparr>)
      in (h6, w))"

definition Buffer_dtor :: "Buffer \<Rightarrow> world \<Rightarrow> world" where
  "Buffer_dtor this w =
     (if isInitialized this
      then vmaDestroyBuffer (allocator this) (vertexBuffer this) (allocation this) w
      else w)"

subsection \<open>Upload\<close>

text \<open>
  \<^verbatim>\<open>loadData\<close>, lines 145 to 155. The body never reads \<open>offset\<close>.
\<close>

definition loadData :: "Buffer \<Rightarrow> byte list \<Rightarrow> VkDeviceSize \<Rightarrow> world \<Rightarrow> VkResult \<times> world" where
  "loadData this data offset w =
     (let (ret, inSrc, w1) = vmaMapMemory (allocator this) (allocation this) w in
      if ret = VK_SUCCESS
      then (ret, vmaUnmapMemory (allocator this) (allocation this)
                   (memcpy inSrc data (size' this) w1))
      else (ret, w1))"

subsection \<open>Transfer\<close>

definition cmdCopyDataFrom :: "Buffer \<Rightarrow> handle \<Rightarrow> handle \<Rightarrow> world \<Rightarrow> world" where
  "cmdCopyDataFrom this src transferBuffer w =
     (let copyRegion = \<lparr>srcOffset = 0, dstOffset = 0, region_size = size' this\<rparr>
      in vkCmdCopyBuffer transferBuffer src (vertexBuffer this) [copyRegion] w)"

text \<open>
  \<^verbatim>\<open>copyDataFrom\<close>, lines 167 to 203: five guarded calls with the recording between the
  second and the third, and the release of the command buffer after the last. The first
  and the last call take \<^verbatim>\<open>*logicalDev\<close>: the pointer is dereferenced before the call
  is made, and on a buffer that has been moved from the run ends there.
\<close>

definition copyDataFrom :: "Buffer \<Rightarrow> handle \<Rightarrow> handle \<Rightarrow> handle \<Rightarrow> world \<Rightarrow> (error + unit) \<times> world" where
  "copyDataFrom this src transferQueue transferCmdPool w =
     (let allocateInfo = \<lparr>cai_sType = VK_STRUCTURE_TYPE_COMMAND_BUFFER_ALLOCATE_INFO,
                           commandPool = transferCmdPool,
                           level = VK_COMMAND_BUFFER_LEVEL_PRIMARY,
                           cai_commandBufferCount = 1\<rparr>
      in case deref (logicalDev this) of
           None \<Rightarrow> (Inl NullDereference, w)
         | Some dev \<Rightarrow>
      (let (r1, cmdBuffer, w1) = vkAllocateCommandBuffers dev allocateInfo VK_NULL_HANDLE w
       in case CHECK_VK_SUCCESS r1 FAILED_CANNOT_CREATE_CMD_BUFFER of
           Some e \<Rightarrow> (Inl e, w1)
         | None \<Rightarrow>
      (let beginInfo = \<lparr>cbi_sType = VK_STRUCTURE_TYPE_COMMAND_BUFFER_BEGIN_INFO,
                         cbi_flags = VK_COMMAND_BUFFER_USAGE_ONE_TIME_SUBMIT_BIT\<rparr>;
           (r2, w2) = vkBeginCommandBuffer cmdBuffer beginInfo w1
       in case CHECK_VK_SUCCESS r2 FAILED_CANNOT_BEGIN_CMD_BUFFER of
            Some e \<Rightarrow> (Inl e, w2)
          | None \<Rightarrow>
      (let w3 = cmdCopyDataFrom this src cmdBuffer w2;
           (r4, w4) = vkEndCommandBuffer cmdBuffer w3
       in case CHECK_VK_SUCCESS r4 FAILED_CANNOT_END_CMD_BUFFER of
            Some e \<Rightarrow> (Inl e, w4)
          | None \<Rightarrow>
      (let submitInfo = \<lparr>si_sType = VK_STRUCTURE_TYPE_SUBMIT_INFO,
                          si_commandBufferCount = 1,
                          pCommandBuffers = [cmdBuffer]\<rparr>;
           (r5, w5) = vkQueueSubmit transferQueue [submitInfo] VK_NULL_HANDLE w4
       in case CHECK_VK_SUCCESS r5 FAILED_CANNOT_SUBMIT_QUEUE of
            Some e \<Rightarrow> (Inl e, w5)
          | None \<Rightarrow>
      (let (r6, w6) = vkQueueWaitIdle transferQueue w5
       in case CHECK_VK_SUCCESS r6 FAILED_WAIT_IDLE of
            Some e \<Rightarrow> (Inl e, w6)
          | None \<Rightarrow>
              (case deref (logicalDev this) of
                 None \<Rightarrow> (Inl NullDereference, w6)
               | Some dev' \<Rightarrow>
                   (Inr (), vkFreeCommandBuffers dev' transferCmdPool [cmdBuffer] w6))))))))"

definition copyDataFrom_Buffer ::
  "Buffer \<Rightarrow> Buffer \<Rightarrow> handle \<Rightarrow> handle \<Rightarrow> world \<Rightarrow> (error + unit) \<times> world" where
  "copyDataFrom_Buffer this src transferQueue transferCmdPool w =
     copyDataFrom this (vertexBuffer src) transferQueue transferCmdPool w"

definition cmdCopyDataFrom_Buffer :: "Buffer \<Rightarrow> Buffer \<Rightarrow> handle \<Rightarrow> world \<Rightarrow> world" where
  "cmdCopyDataFrom_Buffer this src transferBuffer w =
     cmdCopyDataFrom this (vertexBuffer src) transferBuffer w"

subsection \<open>What a host read sees\<close>

text \<open>
  The content of a buffer: the first \<open>size\<close> bytes of its allocation, which is what a
  host read of the mapped region returns.
\<close>

definition content :: "Buffer \<Rightarrow> world \<Rightarrow> byte list" where
  "content b w = map (store w (allocation b)) [0..<unat (size' b)]"

subsection \<open>What an operation calls\<close>

text \<open>The calls logged between an earlier world and a later one.\<close>

definition new_calls :: "world \<Rightarrow> world \<Rightarrow> call list" where
  "new_calls w w' = drop (length (calls w)) (calls w')"

text \<open>
  How many of a list of calls release a given pair of buffer and allocation handles.
\<close>

fun is_release :: "handle \<Rightarrow> handle \<Rightarrow> call \<Rightarrow> bool" where
  "is_release b a (VmaDestroyBuffer al b' a') \<longleftrightarrow> b' = b \<and> a' = a"
| "is_release b a c \<longleftrightarrow> False"

definition releases :: "handle \<Rightarrow> handle \<Rightarrow> call list \<Rightarrow> nat" where
  "releases b a cs = length (filter (is_release b a) cs)"

text \<open>
  The answer the driver will give to the \<open>k\<close>-th fallible call from now, counting
  from 0, read off a list of answers and off a world.
\<close>

definition answer_at :: "VkResult list \<Rightarrow> nat \<Rightarrow> VkResult" where
  "answer_at rs k = (if k < length rs then rs ! k else VK_SUCCESS)"

definition nth_answer :: "world \<Rightarrow> nat \<Rightarrow> VkResult" where
  "nth_answer w k = (if k < length (answers w) then answers w ! k else VK_SUCCESS)"

text \<open>
  The five guarded calls of \<^verbatim>\<open>copyDataFrom\<close> by their messages, in the order of the
  source, and the seven calls a transfer makes when every one of them succeeds.
\<close>

definition transfer_steps :: "message list" where
  "transfer_steps = [FAILED_CANNOT_CREATE_CMD_BUFFER, FAILED_CANNOT_BEGIN_CMD_BUFFER,
     FAILED_CANNOT_END_CMD_BUFFER, FAILED_CANNOT_SUBMIT_QUEUE, FAILED_WAIT_IDLE]"

definition transfer_calls :: "Buffer \<Rightarrow> handle \<Rightarrow> handle \<Rightarrow> handle \<Rightarrow> handle \<Rightarrow> call list" where
  "transfer_calls this src transferQueue transferCmdPool cmdBuffer =
     [VkAllocateCommandBuffers (logicalDev this)
        \<lparr>cai_sType = VK_STRUCTURE_TYPE_COMMAND_BUFFER_ALLOCATE_INFO,
         commandPool = transferCmdPool, level = VK_COMMAND_BUFFER_LEVEL_PRIMARY,
         cai_commandBufferCount = 1\<rparr>,
      VkBeginCommandBuffer cmdBuffer
        \<lparr>cbi_sType = VK_STRUCTURE_TYPE_COMMAND_BUFFER_BEGIN_INFO,
         cbi_flags = VK_COMMAND_BUFFER_USAGE_ONE_TIME_SUBMIT_BIT\<rparr>,
      VkCmdCopyBuffer cmdBuffer src (vertexBuffer this)
        [\<lparr>srcOffset = 0, dstOffset = 0, region_size = size' this\<rparr>],
      VkEndCommandBuffer cmdBuffer,
      VkQueueSubmit transferQueue
        [\<lparr>si_sType = VK_STRUCTURE_TYPE_SUBMIT_INFO, si_commandBufferCount = 1,
          pCommandBuffers = [cmdBuffer]\<rparr>] VK_NULL_HANDLE,
      VkQueueWaitIdle transferQueue,
      VkFreeCommandBuffers (logicalDev this) transferCmdPool [cmdBuffer]]"

fun is_copy_command :: "call \<Rightarrow> bool" where
  "is_copy_command (VkCmdCopyBuffer cb src dst regions) \<longleftrightarrow> True"
| "is_copy_command c \<longleftrightarrow> False"

text \<open>Whether a call creates a buffer.\<close>

fun is_create :: "call \<Rightarrow> bool" where
  "is_create (VmaCreateBuffer al ci ai) \<longleftrightarrow> True"
| "is_create c \<longleftrightarrow> False"

section \<open>Example inputs\<close>

text \<open>
  Three memory types: the first lacks the flags 2 and 4, the second and the third have
  them.
\<close>

definition memprops_example :: VkPhysicalDeviceMemoryProperties where
  "memprops_example = \<lparr>memoryTypeCount = 3, memoryTypes =
     [\<lparr>propertyFlags = 1, heapIndex = 0\<rparr>, \<lparr>propertyFlags = 6, heapIndex = 0\<rparr>,
      \<lparr>propertyFlags = 7, heapIndex = 1\<rparr>]\<rparr>"

text \<open>
  A world in which nothing has happened yet and every call will succeed, and a buffer
  of four bytes.
\<close>

definition world0 :: world where
  "world0 = \<lparr>answers = [], calls = [], store = (\<lambda>a i. 0), binding = (\<lambda>b. None),
             cmdBuffers = (\<lambda>cb. None), pending = (\<lambda>q. []), last_handle = 0\<rparr>"

definition buffer_example :: Buffer where
  "buffer_example = \<lparr>logicalDev = 1, allocator = 2, size' = 4, vertexBuffer = 3, allocation = 4\<rparr>"

text \<open>
  An object that owns nothing, a second buffer, and a store with the two buffers at the
  addresses 10 and 20.
\<close>

definition null_buffer :: Buffer where
  "null_buffer = \<lparr>logicalDev = nullptr, allocator = nullptr, size' = 0,
                   vertexBuffer = VK_NULL_HANDLE, allocation = VK_NULL_HANDLE\<rparr>"

definition buffer_other :: Buffer where
  "buffer_other = \<lparr>logicalDev = 1, allocator = 2, size' = 8, vertexBuffer = 5, allocation = 6\<rparr>"

definition objects_example :: objects where
  "objects_example = (\<lambda>p. null_buffer)(10 := buffer_example, 20 := buffer_other)"

text \<open>
  A world whose driver accepts the allocation of a command buffer and then refuses to
  begin it (\<^verbatim>\<open>VK_ERROR_DEVICE_LOST\<close> is -4), and a world in which the two example
  buffers are bound to their allocations, the second holding the bytes 1, 2, 3 and so on.
\<close>

definition world_begin_fails :: world where
  "world_begin_fails = world0\<lparr>answers := [0, - 4]\<rparr>"

definition world_bound :: world where
  "world_bound = world0\<lparr>binding := (\<lambda>b. if b = 3 then Some 4 else if b = 5 then Some 6 else None),
     store := (\<lambda>a i. if a = 6 then of_nat (i + 1) else 0), last_handle := 6\<rparr>"


section \<open>Properties of the memory type selector\<close>

lemma unat_succ_below: "(i::uint32_t) < n \<Longrightarrow> unat (i + 1) = Suc (unat i)"
  by unat_arith

lemma mask_test: "((w::uint32_t) AND 2 ^ n \<noteq> 0) = bit w n"
  by (simp add: and_exp_eq_0_iff_not_bit)

lemma mask_shift: "push_bit 1 (2 ^ n :: uint32_t) = 2 ^ Suc n"
  by (simp add: push_bit_eq_mult)

lemma getMemoryType_loop_Inr:
  "mask' = 2 ^ unat i \<Longrightarrow>
   getMemoryType_loop p properties filter' mask' i = Inr k \<longleftrightarrow>
     unat i \<le> unat k \<and> k < memoryTypeCount p \<and> acceptable p properties filter' (unat k) \<and>
     (\<forall>j. unat i \<le> j \<and> j < unat k \<longrightarrow> \<not> acceptable p properties filter' j)"
proof (induction p properties filter' mask' i rule: getMemoryType_loop.induct)
  case (1 p properties filter' mask' i)
  show ?case
  proof (cases "i < memoryTypeCount p")
    case False
    then have "getMemoryType_loop p properties filter' mask' i = Inl MemoryTypeUnavailable"
      by (simp add: getMemoryType_loop.simps)
    moreover from False have "\<not> (unat i \<le> unat k \<and> k < memoryTypeCount p)"
      by (auto simp: word_less_nat_alt word_le_nat_alt)
    ultimately show ?thesis by auto
  next
    case True
    note lt = this
    have acc: "acceptable p properties filter' (unat i) \<longleftrightarrow>
        filter' AND mask' \<noteq> 0 \<and>
        propertyFlags (memoryTypes p ! unat i) AND properties = properties"
      using "1.prems" by (simp add: acceptable_def mask_test)
    show ?thesis
    proof (cases "acceptable p properties filter' (unat i)")
      case True
      with lt acc have "getMemoryType_loop p properties filter' mask' i = Inr i"
        by (simp add: getMemoryType_loop.simps)
      moreover have "k = i" if "unat i \<le> unat k" "\<forall>j. unat i \<le> j \<and> j < unat k \<longrightarrow> \<not> acceptable p properties filter' j"
        using that True by (metis le_neq_implies_less order_refl word_unat_eq_iff)
      ultimately show ?thesis using True lt by auto
    next
      case False
      have suc: "unat (i + 1) = Suc (unat i)" using lt by (rule unat_succ_below)
      have m: "push_bit 1 mask' = 2 ^ unat (i + 1)"
        using "1.prems" by (simp add: suc mask_shift)
      from False lt acc have "getMemoryType_loop p properties filter' mask' i =
          getMemoryType_loop p properties filter' (push_bit 1 mask') (i + 1)"
        by (subst getMemoryType_loop.simps) auto
      also have "\<dots> = Inr k \<longleftrightarrow>
         unat (i + 1) \<le> unat k \<and> k < memoryTypeCount p \<and> acceptable p properties filter' (unat k) \<and>
         (\<forall>j. unat (i + 1) \<le> j \<and> j < unat k \<longrightarrow> \<not> acceptable p properties filter' j)"
        using "1.IH" [OF lt _ m] False acc by blast
      finally show ?thesis
        using False unfolding suc
        by (metis Suc_leD Suc_le_eq le_neq_implies_less not_less_eq_eq)
    qed
  qed
qed

lemma getMemoryType_loop_Inl:
  "mask' = 2 ^ unat i \<Longrightarrow>
   getMemoryType_loop p properties filter' mask' i = Inl e \<longleftrightarrow>
     e = MemoryTypeUnavailable \<and>
     (\<forall>j. unat i \<le> j \<and> j < unat (memoryTypeCount p) \<longrightarrow> \<not> acceptable p properties filter' j)"
proof (induction p properties filter' mask' i rule: getMemoryType_loop.induct)
  case (1 p properties filter' mask' i)
  show ?case
  proof (cases "i < memoryTypeCount p")
    case False
    then have "getMemoryType_loop p properties filter' mask' i = Inl MemoryTypeUnavailable"
      by (simp add: getMemoryType_loop.simps)
    moreover from False have "\<not> (unat i \<le> j \<and> j < unat (memoryTypeCount p))" for j
      by (auto simp: word_less_nat_alt)
    ultimately show ?thesis by auto
  next
    case True
    note lt = this
    then have lt': "unat i < unat (memoryTypeCount p)"
      by (simp add: word_less_nat_alt)
    have acc: "acceptable p properties filter' (unat i) \<longleftrightarrow>
        filter' AND mask' \<noteq> 0 \<and>
        propertyFlags (memoryTypes p ! unat i) AND properties = properties"
      using "1.prems" by (simp add: acceptable_def mask_test)
    show ?thesis
    proof (cases "acceptable p properties filter' (unat i)")
      case True
      with lt acc have "getMemoryType_loop p properties filter' mask' i = Inr i"
        by (simp add: getMemoryType_loop.simps)
      then show ?thesis using True lt' by auto
    next
      case False
      have suc: "unat (i + 1) = Suc (unat i)" using lt by (rule unat_succ_below)
      have m: "push_bit 1 mask' = 2 ^ unat (i + 1)"
        using "1.prems" by (simp add: suc mask_shift)
      from False lt acc have "getMemoryType_loop p properties filter' mask' i =
          getMemoryType_loop p properties filter' (push_bit 1 mask') (i + 1)"
        by (subst getMemoryType_loop.simps) auto
      also have "\<dots> = Inl e \<longleftrightarrow> e = MemoryTypeUnavailable \<and>
         (\<forall>j. unat (i + 1) \<le> j \<and> j < unat (memoryTypeCount p) \<longrightarrow>
            \<not> acceptable p properties filter' j)"
        using "1.IH" [OF lt _ m] False acc by blast
      finally show ?thesis
        using False unfolding suc
        by (metis Suc_leD Suc_le_eq le_neq_implies_less)
    qed
  qed
qed

text \<open>
  Claim C1. For every memory properties value the driver can hand out, \<open>getMemoryType\<close>
  returns index \<open>i\<close> exactly when \<open>i\<close> is below the count, bit \<open>i\<close> of the filter is
  set, the flags of type \<open>i\<close> contain the required flags, and no lower index passes
  that test; and it fails exactly when no index below the count passes it, the failure
  being \<open>MemoryTypeUnavailable\<close>.
\<close>

theorem getMemoryType_lowest_acceptable:
  assumes "wf_memory_properties p"
  shows "(getMemoryType p properties filter' = Inr i \<longleftrightarrow>
            i < memoryTypeCount p \<and> acceptable p properties filter' (unat i) \<and>
            (\<forall>j<unat i. \<not> acceptable p properties filter' j)) \<and>
         (getMemoryType p properties filter' = Inl e \<longleftrightarrow>
            e = MemoryTypeUnavailable \<and>
            (\<forall>j<unat (memoryTypeCount p). \<not> acceptable p properties filter' j))"
  using getMemoryType_loop_Inr [of 1 0 p properties filter' i]
    getMemoryType_loop_Inl [of 1 0 p properties filter' e]
  by (simp add: getMemoryType_def)

theorem getMemoryType_lowest_acceptable_witness:
  "wf_memory_properties memprops_example \<and>
   getMemoryType memprops_example 6 6 = Inr 1 \<and>
   getMemoryType memprops_example 8 6 = Inl MemoryTypeUnavailable"
proof -
  have wf: "wf_memory_properties memprops_example"
    by (simp add: wf_memory_properties_def memprops_example_def)
  have a0: "\<not> acceptable memprops_example 6 6 0"
    by (simp add: acceptable_def memprops_example_def)
  have a1: "acceptable memprops_example 6 6 (unat (1::uint32_t))"
    by (simp add: acceptable_def memprops_example_def)
  have none: "\<not> acceptable memprops_example 8 6 j" if "j < 3" for j
  proof -
    from that have "j = 0 \<or> j = 1 \<or> j = 2" by arith
    then show ?thesis
      by (auto simp: acceptable_def memprops_example_def)
  qed
  have c: "memoryTypeCount memprops_example = 3"
    by (simp add: memprops_example_def)
  have "getMemoryType memprops_example 6 6 = Inr 1"
    using getMemoryType_lowest_acceptable [OF wf, of 6 6 1 MemoryTypeUnavailable] a0 a1
    by (simp add: c)
  moreover have "getMemoryType memprops_example 8 6 = Inl MemoryTypeUnavailable"
    using getMemoryType_lowest_acceptable [OF wf, of 8 6 1 MemoryTypeUnavailable] none
    by (simp add: c)
  ultimately show ?thesis using wf by simp
qed


section \<open>Properties of the upload\<close>

lemma answer_log_call:
  "answer (log_call c w) =
     (next_answer w, w\<lparr>answers := tl (answers w), calls := calls w @ [c]\<rparr>)"
  by (simp add: answer_def log_call_def next_answer_def)

lemma vmaMapMemory_eq:
  "vmaMapMemory al a w =
     (next_answer w, if next_answer w = VK_SUCCESS then a else nullptr,
      w\<lparr>answers := tl (answers w), calls := calls w @ [VmaMapMemory al a]\<rparr>)"
  by (simp add: vmaMapMemory_def answer_log_call)

lemma loadData_failure:
  "next_answer w \<noteq> VK_SUCCESS \<Longrightarrow>
   loadData this data offset w =
     (next_answer w,
      w\<lparr>answers := tl (answers w),
        calls := calls w @ [VmaMapMemory (allocator this) (allocation this)]\<rparr>)"
  by (simp add: loadData_def vmaMapMemory_eq)

lemma loadData_success:
  "next_answer w = VK_SUCCESS \<Longrightarrow>
   loadData this data offset w =
     (VK_SUCCESS,
      w\<lparr>answers := tl (answers w),
        calls := calls w @ [VmaMapMemory (allocator this) (allocation this),
                            Memcpy (allocation this) data (size' this),
                            VmaUnmapMemory (allocator this) (allocation this)],
        store := (store w)(allocation this :=
                   (\<lambda>i. if i < unat (size' this) then data ! i else store w (allocation this) i))\<rparr>)"
  by (simp add: loadData_def vmaMapMemory_eq vmaUnmapMemory_def memcpy_def log_call_def Let_def
      cong: if_cong)

text \<open>
  Claim C6. When the map step fails, \<open>loadData\<close> returns the code the map step gave, as
  a value; the only call it has made is the map, so there is no copy and no unmap; the
  store, and with it the content of every buffer, is as before. Whatever the map step
  answers, an unmap is among the calls made exactly when the map succeeded.
\<close>

theorem loadData_map_failure:
  "(next_answer w \<noteq> VK_SUCCESS \<longrightarrow>
      fst (loadData this data offset w) = next_answer w \<and>
      new_calls w (snd (loadData this data offset w)) =
        [VmaMapMemory (allocator this) (allocation this)] \<and>
      store (snd (loadData this data offset w)) = store w \<and>
      content b (snd (loadData this data offset w)) = content b w) \<and>
   ((\<exists>al a. VmaUnmapMemory al a \<in> set (new_calls w (snd (loadData this data offset w))))
      \<longleftrightarrow> next_answer w = VK_SUCCESS)"
proof (cases "next_answer w = VK_SUCCESS")
  case True
  then show ?thesis
    by (simp add: loadData_success new_calls_def)
next
  case False
  then show ?thesis
    by (simp add: loadData_failure new_calls_def content_def)
qed

theorem loadData_map_failure_witness:
  "next_answer (world0\<lparr>answers := [- 5]\<rparr>) \<noteq> VK_SUCCESS \<and>
   fst (loadData buffer_example [1, 2, 3, 4] 0 (world0\<lparr>answers := [- 5]\<rparr>)) = - 5 \<and>
   new_calls (world0\<lparr>answers := [- 5]\<rparr>)
     (snd (loadData buffer_example [1, 2, 3, 4] 0 (world0\<lparr>answers := [- 5]\<rparr>))) =
     [VmaMapMemory 2 4] \<and>
   content buffer_example (snd (loadData buffer_example [1, 2, 3, 4] 0 (world0\<lparr>answers := [- 5]\<rparr>)))
     = [0, 0, 0, 0]"
proof -
  have f: "next_answer (world0\<lparr>answers := [- 5]\<rparr>) = - 5"
    by (simp add: next_answer_def)
  have c: "content buffer_example (world0\<lparr>answers := [- 5]\<rparr>) = [0, 0, 0, 0]"
    by (simp add: content_def buffer_example_def world0_def upt_rec)
  show ?thesis
    using loadData_map_failure [of "world0\<lparr>answers := [- 5]\<rparr>" buffer_example "[1, 2, 3, 4]" 0
        buffer_example]
    by (simp add: f c VK_SUCCESS_def) (simp add: buffer_example_def)
qed

text \<open>
  Claim C4. When the map step succeeds, \<open>loadData\<close> returns success after exactly three
  calls: the map of its allocation, a copy of \<open>size\<close> bytes from the source to the
  mapped base, and the unmap. The store changes at the first \<open>size\<close> offsets of the
  allocation and nowhere else, and another \<open>offset\<close> argument gives the same result.
\<close>

theorem loadData_copies_size_bytes:
  assumes "next_answer w = VK_SUCCESS"
  shows "fst (loadData this data offset w) = VK_SUCCESS \<and>
     new_calls w (snd (loadData this data offset w)) =
       [VmaMapMemory (allocator this) (allocation this),
        Memcpy (allocation this) data (size' this),
        VmaUnmapMemory (allocator this) (allocation this)] \<and>
     store (snd (loadData this data offset w)) =
       (store w)(allocation this :=
          (\<lambda>i. if i < unat (size' this) then data ! i else store w (allocation this) i)) \<and>
     loadData this data offset' w = loadData this data offset w"
  using assms by (simp add: loadData_success new_calls_def)

lemma content_after_load:
  "n \<le> length x \<Longrightarrow> map (\<lambda>i. if i < n then x ! i else g i) [0..<n] = take n x"
  by (auto intro!: nth_equalityI)

text \<open>
  Claim C9. After a successful \<open>loadData\<close> of \<open>x\<close>, which has at least \<open>size\<close> bytes,
  a host read of the buffer gives the first \<open>size\<close> bytes of \<open>x\<close>; a second
  \<open>loadData\<close> of the same \<open>x\<close> leaves that content as it is, whether its map step
  succeeds or not.
\<close>

theorem loadData_round_trip:
  assumes "next_answer w = VK_SUCCESS" and "unat (size' this) \<le> length x"
  shows "content this (snd (loadData this x offset w)) = take (unat (size' this)) x \<and>
    content this (snd (loadData this x offset' (snd (loadData this x offset w)))) =
      content this (snd (loadData this x offset w))"
proof -
  let ?w1 = "snd (loadData this x offset w)"
  have first: "content this ?w1 = take (unat (size' this)) x"
    using assms by (simp add: loadData_success content_def content_after_load)
  have "content this (snd (loadData this x offset' ?w1)) = content this ?w1"
  proof (cases "next_answer ?w1 = VK_SUCCESS")
    case True
    then have "content this (snd (loadData this x offset' ?w1)) = take (unat (size' this)) x"
      using assms(2) by (simp add: loadData_success content_def content_after_load)
    with first show ?thesis by simp
  next
    case False
    then show ?thesis
      by (simp add: loadData_failure content_def)
  qed
  with first show ?thesis by simp
qed


theorem loadData_copies_size_bytes_witness:
  "next_answer world0 = VK_SUCCESS \<and>
   fst (loadData buffer_example [1, 2, 3, 4] 7 world0) = VK_SUCCESS \<and>
   new_calls world0 (snd (loadData buffer_example [1, 2, 3, 4] 7 world0)) =
     [VmaMapMemory 2 4, Memcpy 4 [1, 2, 3, 4] 4, VmaUnmapMemory 2 4] \<and>
   loadData buffer_example [1, 2, 3, 4] 0 world0 = loadData buffer_example [1, 2, 3, 4] 7 world0"
proof -
  have s: "next_answer world0 = VK_SUCCESS"
    by (simp add: next_answer_def world0_def)
  show ?thesis
    using loadData_copies_size_bytes [OF s, of buffer_example "[1, 2, 3, 4]" 7 0] s
    by (simp add: buffer_example_def)
qed

theorem loadData_round_trip_witness:
  "next_answer world0 = VK_SUCCESS \<and>
   unat (size' buffer_example) \<le> length [1, 2, 3, 4, 5 :: byte] \<and>
   content buffer_example (snd (loadData buffer_example [1, 2, 3, 4, 5] 0 world0)) = [1, 2, 3, 4] \<and>
   content buffer_example
     (snd (loadData buffer_example [1, 2, 3, 4, 5] 0
        (snd (loadData buffer_example [1, 2, 3, 4, 5] 0 world0)))) = [1, 2, 3, 4]"
proof -
  have s: "next_answer world0 = VK_SUCCESS"
    by (simp add: next_answer_def world0_def)
  have l: "unat (size' buffer_example) \<le> length [1, 2, 3, 4, 5 :: byte]"
    by (simp add: buffer_example_def)
  have t: "take (unat (size' buffer_example)) [1, 2, 3, 4, 5 :: byte] = [1, 2, 3, 4]"
    by (simp add: buffer_example_def)
  show ?thesis
    using loadData_round_trip [OF s l, of 0 0] s l
    by (simp add: t)
qed


section \<open>Properties of moves and destruction\<close>

lemma Buffer_move_assign_eq:
  "Buffer_move_assign d s h w = (h(d := h s, s := (h s)\<lparr>logicalDev := nullptr\<rparr>), w)"
  by (auto simp: Buffer_move_assign_def Let_def fun_eq_iff)

lemma Buffer_move_ctor_eq:
  "Buffer_move_ctor d s h w = (h(d := h s, s := (h s)\<lparr>logicalDev := nullptr\<rparr>), w)"
  by (auto simp: Buffer_move_ctor_def Let_def fun_eq_iff)

lemma new_calls_Buffer_dtor:
  "new_calls w (Buffer_dtor b w) =
     (if isInitialized b then [VmaDestroyBuffer (allocator b) (vertexBuffer b) (allocation b)]
      else [])"
  by (simp add: Buffer_dtor_def vmaDestroyBuffer_def log_call_def new_calls_def Let_def)


lemma calls_Buffer_dtor_if:
  "calls (Buffer_dtor b w) = calls w @
     (if isInitialized b then [VmaDestroyBuffer (allocator b) (vertexBuffer b) (allocation b)]
      else [])"
  by (simp add: Buffer_dtor_def vmaDestroyBuffer_def log_call_def Let_def)

lemma moved_general:
  assumes mv: "mv = (h(d := h s, s := (h s)\<lparr>logicalDev := nullptr\<rparr>), w)"
  shows "snd mv = w \<and>
    \<not> isInitialized (fst mv s) \<and>
    vertexBuffer (fst mv d) = vertexBuffer (h s) \<and>
    allocation (fst mv d) = allocation (h s) \<and>
    Buffer_dtor (fst mv s) w1 = w1 \<and>
    releases (vertexBuffer (h s)) (allocation (h s))
      (new_calls w1 (Buffer_dtor (fst mv s) (Buffer_dtor (fst mv d) w1))) \<le> 1 \<and>
    releases (vertexBuffer (h s)) (allocation (h s))
      (new_calls w1 (Buffer_dtor (fst mv d) (Buffer_dtor (fst mv s) w1))) \<le> 1 \<and>
    (isInitialized (h s) \<and> d \<noteq> s \<longrightarrow>
       new_calls w1 (Buffer_dtor (fst mv d) w1) =
         [VmaDestroyBuffer (allocator (h s)) (vertexBuffer (h s)) (allocation (h s))])"
proof -
  have src: "fst mv s = (h s)\<lparr>logicalDev := nullptr\<rparr>"
    by (simp add: mv)
  then have un: "\<not> isInitialized (fst mv s)"
    by (simp add: isInitialized_def)
  have dst: "d \<noteq> s \<Longrightarrow> fst mv d = h s"
    by (simp add: mv)
  have handles: "vertexBuffer (fst mv d) = vertexBuffer (h s) \<and> allocation (fst mv d) = allocation (h s)"
    by (cases "d = s") (simp_all add: mv)
  have noop: "Buffer_dtor (fst mv s) w2 = w2" for w2
    using un by (simp add: Buffer_dtor_def)
  have one: "releases b a (new_calls w1 (Buffer_dtor x w1)) \<le> 1" for b a x
    by (simp add: new_calls_def calls_Buffer_dtor_if releases_def)
  show ?thesis
    using un handles noop one dst
    by (auto simp: mv new_calls_def calls_Buffer_dtor_if)
qed

text \<open>
  Claim C5. After a move construction and after a move assignment from the object at
  \<open>s\<close> to the object at \<open>d\<close>: no call has been made; the source reports
  \<open>isInitialized\<close> false; the destination holds the buffer and allocation handles the
  source had; destroying the source makes no call; destroying both objects, in either
  order, releases the source's original pair at most once; and when the source was
  initialized and is another object than the destination, it is the destination's
  destructor that releases the pair.
\<close>

theorem move_transfers_ownership:
  "(snd (Buffer_move_ctor d s h w) = w \<and>
    \<not> isInitialized (fst (Buffer_move_ctor d s h w) s) \<and>
    vertexBuffer (fst (Buffer_move_ctor d s h w) d) = vertexBuffer (h s) \<and>
    allocation (fst (Buffer_move_ctor d s h w) d) = allocation (h s) \<and>
    Buffer_dtor (fst (Buffer_move_ctor d s h w) s) w1 = w1 \<and>
    releases (vertexBuffer (h s)) (allocation (h s))
      (new_calls w1 (Buffer_dtor (fst (Buffer_move_ctor d s h w) s)
                      (Buffer_dtor (fst (Buffer_move_ctor d s h w) d) w1))) \<le> 1 \<and>
    releases (vertexBuffer (h s)) (allocation (h s))
      (new_calls w1 (Buffer_dtor (fst (Buffer_move_ctor d s h w) d)
                      (Buffer_dtor (fst (Buffer_move_ctor d s h w) s) w1))) \<le> 1 \<and>
    (isInitialized (h s) \<and> d \<noteq> s \<longrightarrow>
       new_calls w1 (Buffer_dtor (fst (Buffer_move_ctor d s h w) d) w1) =
         [VmaDestroyBuffer (allocator (h s)) (vertexBuffer (h s)) (allocation (h s))])) \<and>
   (snd (Buffer_move_assign d s h w) = w \<and>
    \<not> isInitialized (fst (Buffer_move_assign d s h w) s) \<and>
    vertexBuffer (fst (Buffer_move_assign d s h w) d) = vertexBuffer (h s) \<and>
    allocation (fst (Buffer_move_assign d s h w) d) = allocation (h s) \<and>
    Buffer_dtor (fst (Buffer_move_assign d s h w) s) w1 = w1 \<and>
    releases (vertexBuffer (h s)) (allocation (h s))
      (new_calls w1 (Buffer_dtor (fst (Buffer_move_assign d s h w) s)
                      (Buffer_dtor (fst (Buffer_move_assign d s h w) d) w1))) \<le> 1 \<and>
    releases (vertexBuffer (h s)) (allocation (h s))
      (new_calls w1 (Buffer_dtor (fst (Buffer_move_assign d s h w) d)
                      (Buffer_dtor (fst (Buffer_move_assign d s h w) s) w1))) \<le> 1 \<and>
    (isInitialized (h s) \<and> d \<noteq> s \<longrightarrow>
       new_calls w1 (Buffer_dtor (fst (Buffer_move_assign d s h w) d) w1) =
         [VmaDestroyBuffer (allocator (h s)) (vertexBuffer (h s)) (allocation (h s))]))"
  using moved_general [OF Buffer_move_ctor_eq [of d s h w], of w1]
    moved_general [OF Buffer_move_assign_eq [of d s h w], of w1]
  by blast


theorem move_transfers_ownership_witness:
  "isInitialized (objects_example 10) \<and> (20::nat) \<noteq> 10 \<and>
   \<not> isInitialized (fst (Buffer_move_assign 20 10 objects_example world0) 10) \<and>
   vertexBuffer (fst (Buffer_move_assign 20 10 objects_example world0) 20) = 3 \<and>
   allocation (fst (Buffer_move_assign 20 10 objects_example world0) 20) = 4 \<and>
   Buffer_dtor (fst (Buffer_move_assign 20 10 objects_example world0) 10) world0 = world0 \<and>
   new_calls world0 (Buffer_dtor (fst (Buffer_move_assign 20 10 objects_example world0) 20) world0) =
     [VmaDestroyBuffer 2 3 4]"
proof -
  have i: "isInitialized (objects_example 10)"
    by (simp add: objects_example_def buffer_example_def isInitialized_def nullptr_def)
  have v: "vertexBuffer (objects_example 10) = 3" "allocation (objects_example 10) = 4"
    "allocator (objects_example 10) = 2"
    by (simp_all add: objects_example_def buffer_example_def)
  show ?thesis
    using move_transfers_ownership [of 20 10 objects_example world0 world0] i
    by (simp add: v)
qed

text \<open>
  Claim C10. A move assignment to the object at \<open>d\<close>, which is the only initialized
  owner of its pair of handles, makes no call, so it releases nothing; afterwards no
  initialized object holds the pair \<open>d\<close> had, and no object's destructor releases it.
\<close>

theorem move_assign_never_releases_destination:
  assumes sole: "\<forall>p. p \<noteq> d \<longrightarrow> isInitialized (h p) \<longrightarrow>
      (vertexBuffer (h p), allocation (h p)) \<noteq> (vertexBuffer (h d), allocation (h d))"
  shows "snd (Buffer_move_assign d s h w) = w \<and>
    new_calls w (snd (Buffer_move_assign d s h w)) = [] \<and>
    (\<forall>p. isInitialized (fst (Buffer_move_assign d s h w) p) \<longrightarrow>
       (vertexBuffer (fst (Buffer_move_assign d s h w) p),
        allocation (fst (Buffer_move_assign d s h w) p))
         \<noteq> (vertexBuffer (h d), allocation (h d))) \<and>
    (\<forall>p w1. releases (vertexBuffer (h d)) (allocation (h d))
       (new_calls w1 (Buffer_dtor (fst (Buffer_move_assign d s h w) p) w1)) = 0)"
proof -
  let ?h' = "fst (Buffer_move_assign d s h w)"
  have h': "?h' = h(d := h s, s := (h s)\<lparr>logicalDev := nullptr\<rparr>)"
    by (simp add: Buffer_move_assign_eq)
  have other: "(vertexBuffer (?h' p), allocation (?h' p)) \<noteq> (vertexBuffer (h d), allocation (h d))"
    if "isInitialized (?h' p)" for p
  proof (cases "p = s")
    case True
    with that show ?thesis by (simp add: h' isInitialized_def)
  next
    case False
    note ps = this
    show ?thesis
    proof (cases "p = d")
      case True
      with ps that have "isInitialized (h s)" "s \<noteq> d" by (auto simp: h')
      with sole have "(vertexBuffer (h s), allocation (h s)) \<noteq> (vertexBuffer (h d), allocation (h d))"
        by blast
      with True ps show ?thesis by (simp add: h')
    next
      case False
      with ps that have "isInitialized (h p)" by (simp add: h')
      with sole False have "(vertexBuffer (h p), allocation (h p)) \<noteq> (vertexBuffer (h d), allocation (h d))"
        by blast
      with False ps show ?thesis by (simp add: h')
    qed
  qed
  have rel: "releases (vertexBuffer (h d)) (allocation (h d))
       (new_calls w1 (Buffer_dtor (?h' p) w1)) = 0" for p w1
    using other [of p] by (auto simp: new_calls_Buffer_dtor releases_def)
  show ?thesis
    using other rel by (simp add: Buffer_move_assign_eq new_calls_def)
qed

theorem move_assign_never_releases_destination_witness:
  "isInitialized (objects_example 10) \<and> isInitialized (objects_example 20) \<and>
   vertexBuffer (objects_example 20) \<noteq> vertexBuffer (objects_example 10) \<and>
   new_calls world0 (snd (Buffer_move_assign 10 20 objects_example world0)) = [] \<and>
   vertexBuffer (fst (Buffer_move_assign 10 20 objects_example world0) 10) = 5 \<and>
   releases 3 4 (new_calls world0
     (Buffer_dtor (fst (Buffer_move_assign 10 20 objects_example world0) 10) world0)) = 0 \<and>
   releases 3 4 (new_calls world0
     (Buffer_dtor (fst (Buffer_move_assign 10 20 objects_example world0) 20) world0)) = 0"
proof -
  have sole: "\<forall>p. p \<noteq> 10 \<longrightarrow> isInitialized (objects_example p) \<longrightarrow>
      (vertexBuffer (objects_example p), allocation (objects_example p))
        \<noteq> (vertexBuffer (objects_example 10), allocation (objects_example 10))"
    by (simp add: objects_example_def buffer_example_def buffer_other_def null_buffer_def
        isInitialized_def)
  have i: "isInitialized (objects_example 10)"
    by (simp add: objects_example_def buffer_example_def isInitialized_def nullptr_def)
  have v: "vertexBuffer (objects_example 10) = 3" "allocation (objects_example 10) = 4"
    by (simp_all add: objects_example_def buffer_example_def)
  have n: "vertexBuffer (fst (Buffer_move_assign 10 20 objects_example world0) 10) = 5"
    by (simp add: Buffer_move_assign_eq objects_example_def buffer_other_def)
  note t = move_assign_never_releases_destination [OF sole, of 20 world0, unfolded v]
  from t have c: "new_calls world0 (snd (Buffer_move_assign 10 20 objects_example world0)) = []"
    by blast
  from t have r: "releases 3 4 (new_calls w1
      (Buffer_dtor (fst (Buffer_move_assign 10 20 objects_example world0) p) w1)) = 0" for p w1
    by blast
  have i2: "isInitialized (objects_example 20)"
    by (simp add: objects_example_def buffer_other_def isInitialized_def nullptr_def)
  have ne: "vertexBuffer (objects_example 20) \<noteq> vertexBuffer (objects_example 10)"
    by (simp add: objects_example_def buffer_example_def buffer_other_def)
  show ?thesis
    using i i2 ne n c r [of world0 10] r [of world0 20] by blast
qed


section \<open>Properties of the transfer\<close>

lemma nth_answer_at: "nth_answer w k = answer_at (answers w) k"
  by (simp add: nth_answer_def answer_at_def)

lemma next_answer_at: "next_answer w = answer_at (answers w) 0"
  by (cases "answers w") (simp_all add: next_answer_def answer_at_def)

lemma answer_at_tl: "answer_at (tl rs) k = answer_at rs (Suc k)"
  by (cases rs) (simp_all add: answer_at_def)

lemmas transfer_api =
  vkAllocateCommandBuffers_def vkBeginCommandBuffer_def vkCmdCopyBuffer_def
  vkEndCommandBuffer_def vkQueueSubmit_def vkQueueWaitIdle_def vkFreeCommandBuffers_def
  cmdCopyDataFrom_def CHECK_VK_SUCCESS_def recorded_def deref_def isInitialized_def

lemma copyDataFrom_uninitialized:
  "\<not> isInitialized this \<Longrightarrow> copyDataFrom this src q pool w = (Inl NullDereference, w)"
  by (simp add: copyDataFrom_def deref_def isInitialized_def)

lemma copyDataFrom_success:
  assumes init: "isInitialized this"
    and a: "answer_at (answers w) 0 = VK_SUCCESS" "answer_at (answers w) 1 = VK_SUCCESS"
    "answer_at (answers w) 2 = VK_SUCCESS" "answer_at (answers w) 3 = VK_SUCCESS"
    "answer_at (answers w) 4 = VK_SUCCESS"
  shows "copyDataFrom this src q pool w =
    (Inr (),
     w\<lparr>answers := tl (tl (tl (tl (tl (answers w))))),
       calls := calls w @ transfer_calls this src q pool (Suc (last_handle w)),
       store := fold (execute (binding w))
                  (pending w q @ [CopyBuffer src (vertexBuffer this)
                     [\<lparr>srcOffset = 0, dstOffset = 0, region_size = size' this\<rparr>]]) (store w),
       cmdBuffers := (\<lambda>cb. if cb = Suc (last_handle w) then None else cmdBuffers w cb),
       pending := (pending w)(q := []),
       last_handle := Suc (last_handle w)\<rparr>)"
  using init a
  by (simp add: copyDataFrom_def transfer_api answer_def log_call_def next_answer_at answer_at_tl
      transfer_calls_def Let_def fun_eq_iff numeral_2_eq_2 numeral_3_eq_3 eval_nat_numeral)


lemmas transfer_eval =
  copyDataFrom_def transfer_api answer_def log_call_def next_answer_at answer_at_tl
  transfer_calls_def Let_def fun_eq_iff eval_nat_numeral new_calls_def

lemma copyDataFrom_fails_allocate:
  assumes "isInitialized this" "answer_at (answers w) 0 \<noteq> VK_SUCCESS"
  shows "fst (copyDataFrom this src q pool w) =
      Inl (CheckFailed FAILED_CANNOT_CREATE_CMD_BUFFER (answer_at (answers w) 0)) \<and>
    new_calls w (snd (copyDataFrom this src q pool w)) =
      take 1 (transfer_calls this src q pool (Suc (last_handle w))) \<and>
    cmdBuffers (snd (copyDataFrom this src q pool w)) = cmdBuffers w"
  using assms by (simp add: transfer_eval)

lemma copyDataFrom_fails_begin:
  assumes "isInitialized this" "answer_at (answers w) 0 = VK_SUCCESS" "answer_at (answers w) 1 \<noteq> VK_SUCCESS"
  shows "fst (copyDataFrom this src q pool w) =
      Inl (CheckFailed FAILED_CANNOT_BEGIN_CMD_BUFFER (answer_at (answers w) 1)) \<and>
    new_calls w (snd (copyDataFrom this src q pool w)) =
      take 2 (transfer_calls this src q pool (Suc (last_handle w))) \<and>
    cmdBuffers (snd (copyDataFrom this src q pool w)) (Suc (last_handle w)) \<noteq> None"
  using assms by (simp add: transfer_eval)

lemma copyDataFrom_fails_end:
  assumes "isInitialized this" "answer_at (answers w) 0 = VK_SUCCESS" "answer_at (answers w) 1 = VK_SUCCESS"
    "answer_at (answers w) 2 \<noteq> VK_SUCCESS"
  shows "fst (copyDataFrom this src q pool w) =
      Inl (CheckFailed FAILED_CANNOT_END_CMD_BUFFER (answer_at (answers w) 2)) \<and>
    new_calls w (snd (copyDataFrom this src q pool w)) =
      take 4 (transfer_calls this src q pool (Suc (last_handle w))) \<and>
    cmdBuffers (snd (copyDataFrom this src q pool w)) (Suc (last_handle w)) \<noteq> None"
  using assms by (simp add: transfer_eval)

lemma copyDataFrom_fails_submit:
  assumes "isInitialized this" "answer_at (answers w) 0 = VK_SUCCESS" "answer_at (answers w) 1 = VK_SUCCESS"
    "answer_at (answers w) 2 = VK_SUCCESS" "answer_at (answers w) 3 \<noteq> VK_SUCCESS"
  shows "fst (copyDataFrom this src q pool w) =
      Inl (CheckFailed FAILED_CANNOT_SUBMIT_QUEUE (answer_at (answers w) 3)) \<and>
    new_calls w (snd (copyDataFrom this src q pool w)) =
      take 5 (transfer_calls this src q pool (Suc (last_handle w))) \<and>
    cmdBuffers (snd (copyDataFrom this src q pool w)) (Suc (last_handle w)) \<noteq> None"
  using assms by (simp add: transfer_eval)

lemma copyDataFrom_fails_wait:
  assumes "isInitialized this" "answer_at (answers w) 0 = VK_SUCCESS" "answer_at (answers w) 1 = VK_SUCCESS"
    "answer_at (answers w) 2 = VK_SUCCESS" "answer_at (answers w) 3 = VK_SUCCESS"
    "answer_at (answers w) 4 \<noteq> VK_SUCCESS"
  shows "fst (copyDataFrom this src q pool w) =
      Inl (CheckFailed FAILED_WAIT_IDLE (answer_at (answers w) 4)) \<and>
    new_calls w (snd (copyDataFrom this src q pool w)) =
      take 6 (transfer_calls this src q pool (Suc (last_handle w))) \<and>
    cmdBuffers (snd (copyDataFrom this src q pool w)) (Suc (last_handle w)) \<noteq> None"
  using assms by (simp add: transfer_eval)

lemma less_5_cases: "k < 5 \<Longrightarrow> k = 0 \<or> k = 1 \<or> k = 2 \<or> k = 3 \<or> k = (4::nat)"
  by arith

text \<open>
  Claim C7, as amended. On an initialized buffer, when step \<open>k\<close> of allocate, begin,
  end, submit and wait-idle is the first to fail, \<open>copyDataFrom\<close> ends with the error of that step, carrying the
  step's message and the code the driver gave, and the failing call is the last call it
  makes. A failed allocation leaves the allocated command buffers as they were; after a
  failure of any later step the command buffer this call allocated is still allocated.
\<close>

theorem copyDataFrom_failure_surfaced:
  assumes init: "isInitialized this"
    and k: "k < 5"
    and before: "\<forall>j<k. nth_answer w j = VK_SUCCESS"
    and fails: "nth_answer w k \<noteq> VK_SUCCESS"
  shows "fst (copyDataFrom this src q pool w) =
      Inl (CheckFailed (transfer_steps ! k) (nth_answer w k)) \<and>
    new_calls w (snd (copyDataFrom this src q pool w)) =
      take ([1, 2, 4, 5, 6] ! k) (transfer_calls this src q pool (Suc (last_handle w))) \<and>
    (k = 0 \<longrightarrow> cmdBuffers (snd (copyDataFrom this src q pool w)) = cmdBuffers w) \<and>
    (0 < k \<longrightarrow> cmdBuffers (snd (copyDataFrom this src q pool w)) (Suc (last_handle w)) \<noteq> None)"
proof -
  from k consider "k = 0" | "k = 1" | "k = 2" | "k = 3" | "k = 4"
    using less_5_cases by blast
  then show ?thesis
  proof cases
    case 1
    with fails show ?thesis
      using copyDataFrom_fails_allocate [OF init, of w src q pool]
      by (simp add: nth_answer_at transfer_steps_def)
  next
    case 2
    with before have "answer_at (answers w) 0 = VK_SUCCESS"
      by (simp add: nth_answer_at)
    with 2 fails show ?thesis
      using copyDataFrom_fails_begin [OF init, of w src q pool]
      by (simp add: nth_answer_at transfer_steps_def)
  next
    case 3
    with before have "answer_at (answers w) 0 = VK_SUCCESS" "answer_at (answers w) 1 = VK_SUCCESS"
      by (simp_all add: nth_answer_at)
    with 3 fails show ?thesis
      using copyDataFrom_fails_end [OF init, of w src q pool]
      by (simp add: nth_answer_at transfer_steps_def)
  next
    case 4
    with before have "answer_at (answers w) 0 = VK_SUCCESS" "answer_at (answers w) 1 = VK_SUCCESS"
      "answer_at (answers w) 2 = VK_SUCCESS"
      by (simp_all add: nth_answer_at)
    with 4 fails show ?thesis
      using copyDataFrom_fails_submit [OF init, of w src q pool]
      by (simp add: nth_answer_at transfer_steps_def)
  next
    case 5
    with before have "answer_at (answers w) 0 = VK_SUCCESS" "answer_at (answers w) 1 = VK_SUCCESS"
      "answer_at (answers w) 2 = VK_SUCCESS" "answer_at (answers w) 3 = VK_SUCCESS"
      by (simp_all add: nth_answer_at)
    with 5 fails show ?thesis
      using copyDataFrom_fails_wait [OF init, of w src q pool]
      by (simp add: nth_answer_at transfer_steps_def)
  qed
qed


text \<open>
  Claim C7 as stated fails: when the begin step fails, the error is surfaced, and the
  command buffer with handle 1, which was not allocated before the call, is allocated
  after it.
\<close>

theorem copyDataFrom_leaves_command_buffer_counterexample:
  "isInitialized buffer_example \<and>
   fst (copyDataFrom buffer_example 5 7 8 world_begin_fails) =
     Inl (CheckFailed FAILED_CANNOT_BEGIN_CMD_BUFFER (- 4)) \<and>
   cmdBuffers world_begin_fails 1 = None \<and>
   cmdBuffers (snd (copyDataFrom buffer_example 5 7 8 world_begin_fails)) 1 = Some []"
  by (simp add: transfer_eval world_begin_fails_def world0_def answer_at_def VK_SUCCESS_def
      buffer_example_def nullptr_def)

theorem copyDataFrom_failure_surfaced_witness:
  "isInitialized buffer_example \<and> (1::nat) < 5 \<and> nth_answer world_begin_fails 0 = VK_SUCCESS \<and>
   nth_answer world_begin_fails 1 \<noteq> VK_SUCCESS \<and>
   fst (copyDataFrom buffer_example 5 7 8 world_begin_fails) =
     Inl (CheckFailed FAILED_CANNOT_BEGIN_CMD_BUFFER (- 4)) \<and>
   length (new_calls world_begin_fails (snd (copyDataFrom buffer_example 5 7 8 world_begin_fails))) = 2 \<and>
   cmdBuffers (snd (copyDataFrom buffer_example 5 7 8 world_begin_fails))
     (Suc (last_handle world_begin_fails)) \<noteq> None"
proof -
  have k: "(1::nat) < 5" by simp
  have b: "\<forall>j<1. nth_answer world_begin_fails j = VK_SUCCESS"
    by (simp add: nth_answer_def world_begin_fails_def VK_SUCCESS_def)
  have f: "nth_answer world_begin_fails 1 \<noteq> VK_SUCCESS"
    by (simp add: nth_answer_def world_begin_fails_def VK_SUCCESS_def)
  have v: "nth_answer world_begin_fails (Suc 0) = - 4"
    by (simp add: nth_answer_def world_begin_fails_def)
  have i: "isInitialized buffer_example"
    by (simp add: isInitialized_def buffer_example_def nullptr_def)
  show ?thesis
    using copyDataFrom_failure_surfaced [OF i k b f, of 5 7 8] i b f
    by (simp add: v transfer_steps_def transfer_calls_def)
qed

lemma copy_region_dst:
  "i < unat (region_size r) \<Longrightarrow> srcOffset r = 0 \<Longrightarrow> dstOffset r = 0 \<Longrightarrow>
   copy_region sa da r st da i = st sa i"
  by (simp add: copy_region_def)

lemma copy_region_src:
  "i < unat (region_size r) \<Longrightarrow> srcOffset r = 0 \<Longrightarrow> dstOffset r = 0 \<Longrightarrow>
   copy_region sa da r st sa i = st sa i"
  by (simp add: copy_region_def)

text \<open>
  Claim C3 as stated fails. The eight-byte example buffer takes a transfer from the
  four-byte one: both are initialized and bound, every step succeeds and the call
  returns, and the destination then has eight bytes of content where the source has
  four, so the destination's content is not the first eight bytes of the source's.
\<close>

theorem copyDataFrom_larger_destination_counterexample:
  "isInitialized buffer_other \<and> isInitialized buffer_example \<and>
   binding world_bound (vertexBuffer buffer_other) = Some (allocation buffer_other) \<and>
   binding world_bound (vertexBuffer buffer_example) = Some (allocation buffer_example) \<and>
   fst (copyDataFrom_Buffer buffer_other buffer_example 7 8 world_bound) = Inr () \<and>
   length (content buffer_other
     (snd (copyDataFrom_Buffer buffer_other buffer_example 7 8 world_bound))) = 8 \<and>
   length (take (unat (size' buffer_other)) (content buffer_example
     (snd (copyDataFrom_Buffer buffer_other buffer_example 7 8 world_bound)))) = 4 \<and>
   content buffer_other (snd (copyDataFrom_Buffer buffer_other buffer_example 7 8 world_bound)) \<noteq>
     take (unat (size' buffer_other)) (content buffer_example
       (snd (copyDataFrom_Buffer buffer_other buffer_example 7 8 world_bound)))"
proof -
  let ?w' = "snd (copyDataFrom_Buffer buffer_other buffer_example 7 8 world_bound)"
  have i: "isInitialized buffer_other" "isInitialized buffer_example"
    by (simp_all add: isInitialized_def buffer_other_def buffer_example_def nullptr_def)
  have b: "binding world_bound (vertexBuffer buffer_other) = Some (allocation buffer_other)"
    "binding world_bound (vertexBuffer buffer_example) = Some (allocation buffer_example)"
    by (simp_all add: world_bound_def buffer_other_def buffer_example_def)
  have a: "answer_at (answers world_bound) 0 = VK_SUCCESS"
    "answer_at (answers world_bound) 1 = VK_SUCCESS"
    "answer_at (answers world_bound) 2 = VK_SUCCESS"
    "answer_at (answers world_bound) 3 = VK_SUCCESS"
    "answer_at (answers world_bound) 4 = VK_SUCCESS"
    by (simp_all add: answer_at_def world_bound_def world0_def)
  have r: "fst (copyDataFrom_Buffer buffer_other buffer_example 7 8 world_bound) = Inr ()"
    by (simp add: copyDataFrom_Buffer_def copyDataFrom_success [OF i(1) a])
  have l8: "length (content buffer_other ?w') = 8"
    by (simp add: content_def buffer_other_def)
  have l4: "length (take (unat (size' buffer_other)) (content buffer_example ?w')) = 4"
    by (simp add: content_def buffer_other_def buffer_example_def)
  have "content buffer_other ?w' \<noteq>
      take (unat (size' buffer_other)) (content buffer_example ?w')"
  proof
    assume "content buffer_other ?w' =
      take (unat (size' buffer_other)) (content buffer_example ?w')"
    then have "length (content buffer_other ?w') =
      length (take (unat (size' buffer_other)) (content buffer_example ?w'))"
      by simp
    with l8 l4 show False by simp
  qed
  with i b r l8 l4 show ?thesis by blast
qed

text \<open>
  Claim C3, as amended. On an initialized destination, when all five steps succeed, the
  call returns normally after the seven calls of a transfer, one of them a copy command,
  with a single region of source offset 0, destination offset 0 and the destination's
  size, whatever the size of the source. The recording variant alone makes exactly that
  one call. When moreover both buffers are bound to their allocations and the source is
  at least as large as the destination, the destination's content after the call is the
  first \<open>size dst\<close> bytes of the source's content, read after the call, and also of the
  source's content before the call when the queue had nothing pending.
\<close>

theorem copyDataFrom_copies_source:
  assumes init: "isInitialized dst"
    and ok: "\<forall>k<5. nth_answer w k = VK_SUCCESS"
  shows "fst (copyDataFrom_Buffer dst src q pool w) = Inr () \<and>
    new_calls w (snd (copyDataFrom_Buffer dst src q pool w)) =
      transfer_calls dst (vertexBuffer src) q pool (Suc (last_handle w)) \<and>
    filter is_copy_command (new_calls w (snd (copyDataFrom_Buffer dst src q pool w))) =
      [VkCmdCopyBuffer (Suc (last_handle w)) (vertexBuffer src) (vertexBuffer dst)
         [\<lparr>srcOffset = 0, dstOffset = 0, region_size = size' dst\<rparr>]] \<and>
    new_calls w (cmdCopyDataFrom_Buffer dst src cb w) =
      [VkCmdCopyBuffer cb (vertexBuffer src) (vertexBuffer dst)
         [\<lparr>srcOffset = 0, dstOffset = 0, region_size = size' dst\<rparr>]] \<and>
    (binding w (vertexBuffer dst) = Some (allocation dst) \<and>
     binding w (vertexBuffer src) = Some (allocation src) \<and>
     size' dst \<le> size' src \<longrightarrow>
       content dst (snd (copyDataFrom_Buffer dst src q pool w)) =
         take (unat (size' dst)) (content src (snd (copyDataFrom_Buffer dst src q pool w))) \<and>
       (pending w q = [] \<longrightarrow>
          content dst (snd (copyDataFrom_Buffer dst src q pool w)) =
            take (unat (size' dst)) (content src w)))"
proof -
  let ?r = "\<lparr>srcOffset = 0, dstOffset = 0, region_size = size' dst\<rparr>"
  let ?n = "unat (size' dst)"
  let ?sa = "allocation src" and ?da = "allocation dst"
  let ?w' = "snd (copyDataFrom_Buffer dst src q pool w)"
  let ?st1 = "fold (execute (binding w)) (pending w q) (store w)"
  have a: "answer_at (answers w) 0 = VK_SUCCESS" "answer_at (answers w) 1 = VK_SUCCESS"
    "answer_at (answers w) 2 = VK_SUCCESS" "answer_at (answers w) 3 = VK_SUCCESS"
    "answer_at (answers w) 4 = VK_SUCCESS"
    using ok by (simp_all add: nth_answer_at)
  note ev = copyDataFrom_success [OF init a, of "vertexBuffer src" q pool]
  have res: "fst (copyDataFrom_Buffer dst src q pool w) = Inr ()"
    by (simp add: copyDataFrom_Buffer_def ev)
  have calls: "new_calls w ?w' = transfer_calls dst (vertexBuffer src) q pool (Suc (last_handle w))"
    by (simp add: copyDataFrom_Buffer_def ev new_calls_def)
  have one: "filter is_copy_command (new_calls w ?w') =
      [VkCmdCopyBuffer (Suc (last_handle w)) (vertexBuffer src) (vertexBuffer dst) [?r]]"
    by (simp add: calls transfer_calls_def)
  have rec: "new_calls w (cmdCopyDataFrom_Buffer dst src cb w) =
      [VkCmdCopyBuffer cb (vertexBuffer src) (vertexBuffer dst) [?r]]"
    by (simp add: cmdCopyDataFrom_Buffer_def cmdCopyDataFrom_def vkCmdCopyBuffer_def log_call_def
        new_calls_def Let_def split: option.split)
  have cont: "content dst ?w' = take ?n (content src ?w') \<and>
      (pending w q = [] \<longrightarrow> content dst ?w' = take ?n (content src w))"
    if dstb: "binding w (vertexBuffer dst) = Some (allocation dst)"
      and srcb: "binding w (vertexBuffer src) = Some (allocation src)"
      and sz: "size' dst \<le> size' src"
  proof -
    have st: "store ?w' = copy_region ?sa ?da ?r ?st1"
      by (simp add: copyDataFrom_Buffer_def ev dstb srcb)
    have le: "?n \<le> unat (size' src)"
      using sz by (simp add: word_le_nat_alt)
    have d: "content dst ?w' = map (?st1 ?sa) [0..<?n]"
      by (simp add: content_def st copy_region_dst)
    have "take ?n (content src ?w') = map (store ?w' ?sa) [0..<?n]"
      using le by (simp add: content_def take_map)
    also have "\<dots> = map (?st1 ?sa) [0..<?n]"
      by (simp add: st copy_region_src)
    finally have after: "content dst ?w' = take ?n (content src ?w')"
      using d by simp
    have idle: "content dst ?w' = take ?n (content src w)" if "pending w q = []"
      using that d le by (simp add: content_def take_map)
    from after idle show ?thesis by blast
  qed
  from res calls one rec cont show ?thesis by blast
qed

theorem copyDataFrom_copies_source_witness:
  "isInitialized buffer_example \<and> answers world_bound = [] \<and>
   binding world_bound (vertexBuffer buffer_example) = Some (allocation buffer_example) \<and>
   binding world_bound (vertexBuffer buffer_other) = Some (allocation buffer_other) \<and>
   size' buffer_example \<le> size' buffer_other \<and>
   pending world_bound 7 = [] \<and>
   fst (copyDataFrom_Buffer buffer_example buffer_other 7 8 world_bound) = Inr () \<and>
   content buffer_example (snd (copyDataFrom_Buffer buffer_example buffer_other 7 8 world_bound))
     = [1, 2, 3, 4]"
proof -
  have i: "isInitialized buffer_example"
    by (simp add: isInitialized_def buffer_example_def nullptr_def)
  have e: "answers world_bound = []"
    by (simp add: world_bound_def world0_def)
  have ok: "\<forall>k<5. nth_answer world_bound k = VK_SUCCESS"
    by (simp add: nth_answer_def e)
  have d: "binding world_bound (vertexBuffer buffer_example) = Some (allocation buffer_example)"
    by (simp add: world_bound_def buffer_example_def)
  have s: "binding world_bound (vertexBuffer buffer_other) = Some (allocation buffer_other)"
    by (simp add: world_bound_def buffer_other_def)
  have sz: "size' buffer_example \<le> size' buffer_other"
    by (simp add: buffer_example_def buffer_other_def)
  have idle: "pending world_bound 7 = []"
    by (simp add: world_bound_def world0_def)
  have t: "take (unat (size' buffer_example)) (content buffer_other world_bound) = [1, 2, 3, 4]"
    by (simp add: content_def buffer_other_def buffer_example_def world_bound_def upt_rec)
  note c = copyDataFrom_copies_source [OF i ok, of buffer_other 7 8 0]
  from c have r: "fst (copyDataFrom_Buffer buffer_example buffer_other 7 8 world_bound) = Inr ()"
    by blast
  from c d s sz idle have "content buffer_example
      (snd (copyDataFrom_Buffer buffer_example buffer_other 7 8 world_bound)) =
      take (unat (size' buffer_example)) (content buffer_other world_bound)"
    by blast
  with t have "content buffer_example
      (snd (copyDataFrom_Buffer buffer_example buffer_other 7 8 world_bound)) = [1, 2, 3, 4]"
    by simp
  with i e d s sz idle r show ?thesis by blast
qed

section \<open>Properties of construction and size\<close>

lemma vmaCreateBuffer_eq:
  "vmaCreateBuffer al ci ai w =
     (if next_answer w = VK_SUCCESS
      then (VK_SUCCESS, Suc (last_handle w), Suc (Suc (last_handle w)),
            w\<lparr>answers := tl (answers w), calls := calls w @ [VmaCreateBuffer al ci ai],
              binding := (binding w)(Suc (last_handle w) \<mapsto> Suc (Suc (last_handle w))),
              last_handle := Suc (Suc (last_handle w))\<rparr>)
      else (next_answer w, VK_NULL_HANDLE, VK_NULL_HANDLE,
            w\<lparr>answers := tl (answers w), calls := calls w @ [VmaCreateBuffer al ci ai]\<rparr>))"
  by (simp add: vmaCreateBuffer_def answer_log_call Let_def)

lemma Buffer_ctor_eq:
  "Buffer_ctor dev al physicalDev bufferSize bufferUsageFlags memoryUsage memoryFlags usedQueues w =
     (let ci = (if usedQueues \<noteq> None \<and> 1 < card (the usedQueues)
                then \<lparr>bci_sType = VK_STRUCTURE_TYPE_BUFFER_CREATE_INFO, bci_size = bufferSize,
                       bci_usage = bufferUsageFlags, sharingMode = VK_SHARING_MODE_CONCURRENT,
                       queueFamilyIndexCount = of_nat (card (the usedQueues)),
                       pQueueFamilyIndices = sorted_list_of_set (the usedQueues)\<rparr>
                else \<lparr>bci_sType = VK_STRUCTURE_TYPE_BUFFER_CREATE_INFO, bci_size = bufferSize,
                       bci_usage = bufferUsageFlags, sharingMode = VK_SHARING_MODE_EXCLUSIVE,
                       queueFamilyIndexCount = 0, pQueueFamilyIndices = []\<rparr>);
          ai = \<lparr>aci_usage = memoryUsage, requiredFlags = memoryFlags\<rparr>;
          w1 = w\<lparr>answers := tl (answers w), calls := calls w @ [VmaCreateBuffer al ci ai]\<rparr>
      in if next_answer w = VK_SUCCESS
         then (Inr \<lparr>logicalDev = dev, allocator = al, size' = bufferSize,
                    vertexBuffer = Suc (last_handle w), allocation = Suc (Suc (last_handle w))\<rparr>,
               w1\<lparr>binding := (binding w)(Suc (last_handle w) \<mapsto> Suc (Suc (last_handle w))),
                  last_handle := Suc (Suc (last_handle w))\<rparr>)
         else (Inl (CheckFailed Cannot_create_buffer (next_answer w)), w1))"
  by (simp add: Buffer_ctor_def createVertexBuffer_def createVertexBufferConcurrent_def
      vmaCreateBuffer_eq CHECK_VK_SUCCESS_def Let_def)


text \<open>
  A buffer that comes out of the constructor is bound to its allocation, and initialized
  when the device pointer passed in is not null.
\<close>

lemma Buffer_ctor_binds:
  assumes "Buffer_ctor dev al physicalDev bufferSize bufferUsageFlags memoryUsage memoryFlags
      usedQueues w = (Inr b, w')"
  shows "binding w' (vertexBuffer b) = Some (allocation b) \<and> logicalDev b = dev \<and>
    allocator b = al"
  using assms by (auto simp: Buffer_ctor_eq Let_def split: if_splits)

lemma no_create_transfer_calls:
  "filter is_create (take n (transfer_calls this src q pool cb)) = []"
proof -
  have "\<forall>c \<in> set (transfer_calls this src q pool cb). \<not> is_create c"
    by (simp add: transfer_calls_def)
  then have "\<forall>c \<in> set (take n (transfer_calls this src q pool cb)). \<not> is_create c"
    by (meson in_set_takeD)
  then show ?thesis by (simp add: filter_empty_conv)
qed

lemma copyDataFrom_calls_prefix_initialized:
  assumes init: "isInitialized this"
  shows "\<exists>n. new_calls w (snd (copyDataFrom this src q pool w)) =
     take n (transfer_calls this src q pool (Suc (last_handle w)))"
proof (cases "answer_at (answers w) 0 = VK_SUCCESS")
  case False
  then show ?thesis using copyDataFrom_fails_allocate [OF init, of w src q pool] by blast
next
  case a0: True
  show ?thesis
  proof (cases "answer_at (answers w) 1 = VK_SUCCESS")
    case False
    with a0 show ?thesis using copyDataFrom_fails_begin [OF init, of w src q pool] by blast
  next
    case a1: True
    show ?thesis
    proof (cases "answer_at (answers w) 2 = VK_SUCCESS")
      case False
      with a0 a1 show ?thesis using copyDataFrom_fails_end [OF init, of w src q pool] by blast
    next
      case a2: True
      show ?thesis
      proof (cases "answer_at (answers w) 3 = VK_SUCCESS")
        case False
        with a0 a1 a2 show ?thesis using copyDataFrom_fails_submit [OF init, of w src q pool] by blast
      next
        case a3: True
        show ?thesis
        proof (cases "answer_at (answers w) 4 = VK_SUCCESS")
          case False
          with a0 a1 a2 a3 show ?thesis
            using copyDataFrom_fails_wait [OF init, of w src q pool] by blast
        next
          case a4: True
          have "new_calls w (snd (copyDataFrom this src q pool w)) =
              take 7 (transfer_calls this src q pool (Suc (last_handle w)))"
            by (simp add: copyDataFrom_success [OF init a0 a1 a2 a3 a4] new_calls_def transfer_calls_def)
          then show ?thesis by blast
        qed
      qed
    qed
  qed
qed

lemma copyDataFrom_calls_prefix:
  "\<exists>n. new_calls w (snd (copyDataFrom this src q pool w)) =
     take n (transfer_calls this src q pool (Suc (last_handle w)))"
proof (cases "isInitialized this")
  case True
  then show ?thesis by (rule copyDataFrom_calls_prefix_initialized)
next
  case False
  then have "new_calls w (snd (copyDataFrom this src q pool w)) =
      take 0 (transfer_calls this src q pool (Suc (last_handle w)))"
    by (simp add: copyDataFrom_uninitialized new_calls_def)
  then show ?thesis by blast
qed

lemma no_create_copyDataFrom:
  "filter is_create (new_calls w (snd (copyDataFrom this src q pool w))) = []"
  using copyDataFrom_calls_prefix [of w this src q pool] no_create_transfer_calls by metis

lemma no_create_loadData:
  "filter is_create (new_calls w (snd (loadData this data offset w))) = []"
  by (cases "next_answer w = VK_SUCCESS")
    (simp_all add: loadData_success loadData_failure new_calls_def)

lemma no_create_Buffer_dtor:
  "filter is_create (new_calls w (Buffer_dtor this w)) = []"
  by (simp add: new_calls_Buffer_dtor)

lemma no_create_cmdCopyDataFrom:
  "filter is_create (new_calls w (cmdCopyDataFrom this src cb w)) = []"
  by (simp add: cmdCopyDataFrom_def vkCmdCopyBuffer_def log_call_def new_calls_def Let_def
      split: option.split)

lemma new_calls_Buffer_ctor:
  "new_calls w (snd (Buffer_ctor dev al physicalDev bufferSize bufferUsageFlags memoryUsage
       memoryFlags usedQueues w)) =
     [VmaCreateBuffer al
        (if usedQueues \<noteq> None \<and> 1 < card (the usedQueues)
         then \<lparr>bci_sType = VK_STRUCTURE_TYPE_BUFFER_CREATE_INFO, bci_size = bufferSize,
               bci_usage = bufferUsageFlags, sharingMode = VK_SHARING_MODE_CONCURRENT,
               queueFamilyIndexCount = of_nat (card (the usedQueues)),
               pQueueFamilyIndices = sorted_list_of_set (the usedQueues)\<rparr>
         else \<lparr>bci_sType = VK_STRUCTURE_TYPE_BUFFER_CREATE_INFO, bci_size = bufferSize,
               bci_usage = bufferUsageFlags, sharingMode = VK_SHARING_MODE_EXCLUSIVE,
               queueFamilyIndexCount = 0, pQueueFamilyIndices = []\<rparr>)
        \<lparr>aci_usage = memoryUsage, requiredFlags = memoryFlags\<rparr>]"
  by (simp add: Buffer_ctor_eq Let_def new_calls_def)

text \<open>
  Claim C2. A construction makes exactly one call, a buffer creation. With a queue
  family set of more than one element the creation is concurrent and lists the elements
  of the set, each once, with the number of elements as the count; with no set, or a set
  of at most one element, it is exclusive and lists nothing. No later operation on a
  buffer (upload, recording, transfer, destruction, move) makes a creation call.
\<close>

theorem Buffer_ctor_sharing_mode:
  "(usedQueues = Some qs \<and> 1 < card qs \<longrightarrow>
      (\<exists>ci ai. new_calls w (snd (Buffer_ctor dev al physicalDev bufferSize bufferUsageFlags
                   memoryUsage memoryFlags usedQueues w)) = [VmaCreateBuffer al ci ai] \<and>
         sharingMode ci = VK_SHARING_MODE_CONCURRENT \<and>
         set (pQueueFamilyIndices ci) = qs \<and> distinct (pQueueFamilyIndices ci) \<and>
         queueFamilyIndexCount ci = of_nat (card qs))) \<and>
   (usedQueues = None \<or> (\<exists>qs'. usedQueues = Some qs' \<and> card qs' \<le> 1) \<longrightarrow>
      (\<exists>ci ai. new_calls w (snd (Buffer_ctor dev al physicalDev bufferSize bufferUsageFlags
                   memoryUsage memoryFlags usedQueues w)) = [VmaCreateBuffer al ci ai] \<and>
         sharingMode ci = VK_SHARING_MODE_EXCLUSIVE \<and>
         pQueueFamilyIndices ci = [] \<and> queueFamilyIndexCount ci = 0)) \<and>
   length (filter is_create (new_calls w (snd (Buffer_ctor dev al physicalDev bufferSize
      bufferUsageFlags memoryUsage memoryFlags usedQueues w)))) = 1 \<and>
   filter is_create (new_calls w1 (snd (loadData b data offset w1))) = [] \<and>
   filter is_create (new_calls w1 (cmdCopyDataFrom b src cb w1)) = [] \<and>
   filter is_create (new_calls w1 (snd (copyDataFrom b src q pool w1))) = [] \<and>
   filter is_create (new_calls w1 (Buffer_dtor b w1)) = [] \<and>
   new_calls w1 (snd (Buffer_move_ctor d s h w1)) = [] \<and>
   new_calls w1 (snd (Buffer_move_assign d s h w1)) = []"
proof -
  let ?w' = "snd (Buffer_ctor dev al physicalDev bufferSize bufferUsageFlags
                memoryUsage memoryFlags usedQueues w)"
  have conc: "\<exists>ci ai. new_calls w ?w' = [VmaCreateBuffer al ci ai] \<and>
         sharingMode ci = VK_SHARING_MODE_CONCURRENT \<and>
         set (pQueueFamilyIndices ci) = qs \<and> distinct (pQueueFamilyIndices ci) \<and>
         queueFamilyIndexCount ci = of_nat (card qs)"
    if "usedQueues = Some qs" "1 < card qs"
    using that by (simp add: new_calls_Buffer_ctor)
  have excl: "\<exists>ci ai. new_calls w ?w' = [VmaCreateBuffer al ci ai] \<and>
         sharingMode ci = VK_SHARING_MODE_EXCLUSIVE \<and>
         pQueueFamilyIndices ci = [] \<and> queueFamilyIndexCount ci = 0"
    if "usedQueues = None \<or> (\<exists>qs'. usedQueues = Some qs' \<and> card qs' \<le> 1)"
    using that by (auto simp: new_calls_Buffer_ctor)
  have once: "length (filter is_create (new_calls w ?w')) = 1"
    by (simp add: new_calls_Buffer_ctor)
  have moves: "new_calls w1 (snd (Buffer_move_ctor d s h w1)) = []"
    "new_calls w1 (snd (Buffer_move_assign d s h w1)) = []"
    by (simp_all add: Buffer_move_ctor_eq Buffer_move_assign_eq new_calls_def)
  show ?thesis
    using conc excl once moves no_create_loadData [of w1 b data offset]
      no_create_cmdCopyDataFrom [of w1 b src cb] no_create_copyDataFrom [of w1 b src q pool]
      no_create_Buffer_dtor [of w1 b]
    by blast
qed


theorem Buffer_ctor_sharing_mode_witness:
  "1 < card {0, 2 :: uint32_t} \<and>
   (\<exists>ci ai. new_calls world0 (snd (Buffer_ctor 9 2 3 256 0 0 0 (Some {0, 2}) world0)) =
       [VmaCreateBuffer 2 ci ai] \<and>
     sharingMode ci = VK_SHARING_MODE_CONCURRENT \<and> set (pQueueFamilyIndices ci) = {0, 2} \<and>
     queueFamilyIndexCount ci = 2) \<and>
   (\<exists>ci ai. new_calls world0 (snd (Buffer_ctor 9 2 3 256 0 0 0 None world0)) =
       [VmaCreateBuffer 2 ci ai] \<and>
     sharingMode ci = VK_SHARING_MODE_EXCLUSIVE \<and> pQueueFamilyIndices ci = [])"
proof -
  have c: "card {0, 2 :: uint32_t} = 2"
    by simp
  then have lt: "1 < card {0, 2 :: uint32_t}"
    by simp
  from Buffer_ctor_sharing_mode [of "Some {0, 2}" "{0, 2}" world0 9 2 3 256 0 0 0] lt
  have "\<exists>ci ai. new_calls world0 (snd (Buffer_ctor 9 2 3 256 0 0 0 (Some {0, 2}) world0)) =
       [VmaCreateBuffer 2 ci ai] \<and>
     sharingMode ci = VK_SHARING_MODE_CONCURRENT \<and> set (pQueueFamilyIndices ci) = {0, 2} \<and>
     queueFamilyIndexCount ci = of_nat (card {0, 2 :: uint32_t})"
    by blast
  then have a: "\<exists>ci ai. new_calls world0 (snd (Buffer_ctor 9 2 3 256 0 0 0 (Some {0, 2}) world0)) =
       [VmaCreateBuffer 2 ci ai] \<and>
     sharingMode ci = VK_SHARING_MODE_CONCURRENT \<and> set (pQueueFamilyIndices ci) = {0, 2} \<and>
     queueFamilyIndexCount ci = 2"
    by (simp add: c)
  from Buffer_ctor_sharing_mode [of None "{}" world0 9 2 3 256 0 0 0]
  have b: "\<exists>ci ai. new_calls world0 (snd (Buffer_ctor 9 2 3 256 0 0 0 None world0)) =
       [VmaCreateBuffer 2 ci ai] \<and>
     sharingMode ci = VK_SHARING_MODE_EXCLUSIVE \<and> pQueueFamilyIndices ci = []"
    by blast
  from a b lt show ?thesis by blast
qed





end
